theory Spec2Isabelle
  imports Complex_Main "HOL-Library.Sublist"
begin

section \<open>VizSNP: the annotation pipeline of \<^verbatim>\<open>vizsnp.js\<close>\<close>

text \<open>
  The definitions below follow the functions of the pipeline module one by one and keep
  their names. JavaScript strings are modelled as \<open>string\<close> (the bytes of their UTF-8
  encoding), arrays as lists, \<open>undefined\<close>/\<open>null\<close> as \<open>None\<close>, a thrown exception (a
  rejected promise) as \<open>Inl\<close> of an \<open>error\<close>, and counts and positions as integers.
\<close>

subsection \<open>Array helpers\<close>

text \<open>\<^verbatim>\<open>array.slice(i, j)\<close> for indices \<open>0 \<le> i\<close>, \<open>0 \<le> j\<close>: both ends are clamped to the
  length of the array.\<close>

definition slice :: "'a list \<Rightarrow> nat \<Rightarrow> nat \<Rightarrow> 'a list" where
  "slice array i j = drop i (take j array)"

subsection \<open>Values, strings and numbers\<close>

text \<open>The exceptions the module can raise: a property read on \<open>undefined\<close> (\<open>TypeError\<close>),
  a failed read of a file handle or a malformed header or line reported by the tabix and VCF
  libraries (\<open>IOError\<close>, \<open>FormatError\<close>), and a rejected \<^verbatim>\<open>fetch\<close> (\<open>RemoteError\<close>).\<close>

datatype error = TypeError | IOError | FormatError | RemoteError

text \<open>Truthiness of a value that is a string or \<open>undefined\<close>/\<open>null\<close>: the empty string is
  falsy.\<close>

definition truthy_string :: "string option \<Rightarrow> bool" where
  "truthy_string v = (case v of None \<Rightarrow> False | Some s \<Rightarrow> s \<noteq> [])"

text \<open>\<^verbatim>\<open>array[i]\<close>: \<open>undefined\<close> out of range.\<close>

definition at_index :: "'a list \<Rightarrow> nat \<Rightarrow> 'a option" where
  "at_index xs i = (if i < length xs then Some (xs ! i) else None)"

text \<open>The decimal rendering of an integer, as \<^verbatim>\<open>String(n)\<close> gives it for the integers a
  position or a date component can be (below \<open>10^21\<close>).\<close>

definition digit_char :: "nat \<Rightarrow> char" where
  "digit_char d = ''0123456789'' ! (d mod 10)"

function digits :: "nat \<Rightarrow> string" where
  "digits n = (if n < 10 then [digit_char n] else digits (n div 10) @ [digit_char (n mod 10)])"
  by pat_completeness auto
termination
  by (relation "measure id") auto

declare digits.simps [simp del]

definition number_toString :: "int \<Rightarrow> string" where
  "number_toString k = (if k < 0 then CHR ''-'' # digits (nat (- k)) else digits (nat k))"

text \<open>\<^verbatim>\<open>array.join(sep)\<close> on an array of strings.\<close>

fun join :: "string \<Rightarrow> string list \<Rightarrow> string" where
  "join sep [] = []"
| "join sep [x] = x"
| "join sep (x # y # ys) = x @ sep @ join sep (y # ys)"

text \<open>In \<^verbatim>\<open>join\<close> an \<open>undefined\<close> or \<open>null\<close> element is rendered as the empty string; in a
  template literal it is rendered as the word \<^verbatim>\<open>undefined\<close>.\<close>

definition join_element :: "string option \<Rightarrow> string" where
  "join_element e = (case e of None \<Rightarrow> [] | Some s \<Rightarrow> s)"

definition template :: "string option \<Rightarrow> string" where
  "template e = (case e of None \<Rightarrow> ''undefined'' | Some s \<Rightarrow> s)"

text \<open>\<^verbatim>\<open>line.includes(filter)\<close>: the filter occurs as a contiguous substring.\<close>

definition string_includes :: "string \<Rightarrow> string \<Rightarrow> bool" where
  "string_includes line pat = list_ex (prefix pat) (suffixes line)"

text \<open>\<^verbatim>\<open>s.replace(pat, rep)\<close> with a string pattern: only the first occurrence of the pattern
  is replaced, wherever it is in \<open>s\<close> (\<open>rep\<close> without \<^verbatim>\<open>$\<close> patterns).\<close>

fun replace :: "string \<Rightarrow> string \<Rightarrow> string \<Rightarrow> string" where
  "replace pat rep [] = (if pat = [] then rep else [])"
| "replace pat rep (c # cs) =
     (if prefix pat (c # cs) then rep @ drop (length pat) (c # cs)
      else c # replace pat rep cs)"

text \<open>\<^verbatim>\<open>s.split(sep)\<close> with a one-character separator: always at least one part.\<close>

fun split :: "char \<Rightarrow> string \<Rightarrow> string list" where
  "split sep [] = [[]]"
| "split sep (c # cs) =
     (if c = sep then [] # split sep cs
      else (case split sep cs of [] \<Rightarrow> [[c]] | w # ws \<Rightarrow> (c # w) # ws))"

subsection \<open>The query-line formatter: \<^verbatim>\<open>parseVariant\<close>\<close>

text \<open>A parsed VCF line, as the VCF parser returns it: \<open>ID\<close> and \<open>ALT\<close> are arrays, or absent
  when the column is \<^verbatim>\<open>.\<close>.\<close>

record variant =
  CHROM :: "string option"
  POS :: "int option"
  ID :: "string list option"
  REF :: "string option"
  ALT :: "string list option"

text \<open>
  \<^verbatim>\<open>
  function parseVariant(variant) {
    let { CHROM, POS, ID, REF, ALT } = variant;
    if (CHROM) CHROM = CHROM.replace("chr", "");
    if (ID) ID = ID[0];
    if (ALT) ALT = ALT.join(",");
    return [CHROM, POS, ID, REF, ALT, null].map((e) => e ?? ".").join(" ");
  }
  \<close>
\<close>

definition nullish_dot :: "string option \<Rightarrow> string" where
  "nullish_dot e = (case e of None \<Rightarrow> ''.'' | Some s \<Rightarrow> s)"

definition parseVariant :: "variant \<Rightarrow> string" where
  "parseVariant variant =
     (let chrom = (if truthy_string (CHROM variant)
                   then map_option (replace ''chr'' []) (CHROM variant)
                   else CHROM variant);
          ident = (case ID variant of None \<Rightarrow> None | Some ids \<Rightarrow> at_index ids 0);
          alt = (case ALT variant of None \<Rightarrow> None | Some alts \<Rightarrow> Some (join '','' alts))
      in join '' '' (map nullish_dot
           [chrom, map_option number_toString (POS variant), ident, REF variant, alt, None]))"

subsection \<open>The indexed variant reader: \<^verbatim>\<open>readVcfFile\<close>\<close>

text \<open>
  The tabix and VCF libraries are outside the module; the reader is modelled over what it
  uses of them. A tabix file gives its header text and, for a reference sequence name, the
  lines of that sequence in file order (\<^verbatim>\<open>getLines(refName, 0, undefined, callback)\<close> runs
  the callback on each of them in turn). A VCF parser built from the header has the contig
  names of the header metadata (absent when the header declares none) and parses a line.
\<close>

record tabix =
  getHeader :: "error + string"
  getLines :: "string \<Rightarrow> error + string list"

record 'v vcf =
  contig :: "string list option"
  parseLine :: "string \<Rightarrow> error + 'v"

text \<open>
  \<open>filter_accepts\<close> is the test \<^verbatim>\<open>!filter || line.includes(filter)\<close>: an absent or empty
  filter accepts every line.
  \<^verbatim>\<open>
  (line) => {
    if (variants.length < limit && (!filter || line.includes(filter))) {
      variants.push(tbiVCFParser.parseLine(line));
    }
  }
  \<close>
\<close>

definition filter_accepts :: "string option \<Rightarrow> string \<Rightarrow> bool" where
  "filter_accepts filter_text line =
     (case filter_text of None \<Rightarrow> True | Some f \<Rightarrow> f = [] \<or> string_includes line f)"

definition lineCallback ::
  "'v vcf \<Rightarrow> int \<Rightarrow> string option \<Rightarrow> 'v list \<Rightarrow> string \<Rightarrow> error + 'v list" where
  "lineCallback parser limit filter_text variants line =
     (if int (length variants) < limit \<and> filter_accepts filter_text line
      then (case parseLine parser line of
              Inl e \<Rightarrow> Inl e
            | Inr v \<Rightarrow> Inr (variants @ [v]))
      else Inr variants)"

text \<open>The callback run over the lines of one reference sequence; a throwing callback ends
  the read.\<close>

fun lines_loop ::
  "('v list \<Rightarrow> string \<Rightarrow> error + 'v list) \<Rightarrow> 'v list \<Rightarrow> string list \<Rightarrow> error + 'v list" where
  "lines_loop callback variants [] = Inr variants"
| "lines_loop callback variants (line # rest) =
     (case callback variants line of
        Inl e \<Rightarrow> Inl e
      | Inr variants' \<Rightarrow> lines_loop callback variants' rest)"

text \<open>
  \<^verbatim>\<open>
  for (let refName of refNames) {
    await tbiIndexed.getLines(refName, 0, undefined, (line) => { ... });
  }
  \<close>
  The loop returns, beside its outcome, the reference sequences \<^verbatim>\<open>getLines\<close> was called
  for, in call order.
\<close>

fun refNames_loop ::
  "tabix \<Rightarrow> ('v list \<Rightarrow> string \<Rightarrow> error + 'v list) \<Rightarrow> 'v list \<Rightarrow> string list \<Rightarrow> string list
     \<Rightarrow> string list \<times> (error + 'v list)" where
  "refNames_loop tbi callback variants calls [] = (calls, Inr variants)"
| "refNames_loop tbi callback variants calls (refName # rest) =
     (case getLines tbi refName of
        Inl e \<Rightarrow> (calls @ [refName], Inl e)
      | Inr lines \<Rightarrow>
          (case lines_loop callback variants lines of
             Inl e \<Rightarrow> (calls @ [refName], Inl e)
           | Inr variants' \<Rightarrow> refNames_loop tbi callback variants' (calls @ [refName]) rest))"

text \<open>
  \<^verbatim>\<open>
  export async function readVcfFile(filehandle, tbiFilehandle, limit = 1000, filter = null) {
    const tbiIndexed = new TabixIndexedFile({ filehandle, tbiFilehandle });
    const headerText = await tbiIndexed.getHeader();
    const tbiVCFParser = new VCF({ header: headerText });
    const refNames = Object.keys(tbiVCFParser.metadata.contig);
    const variants = [];
    for (let refName of refNames) { ... }
    return variants;
  }
  \<close>
  \<open>VCF\<close> is the parser's constructor; \<open>contig\<close> is the list \<^verbatim>\<open>Object.keys\<close> gives for the contig
  table of the header metadata, and \<^verbatim>\<open>Object.keys\<close> of an absent table throws.
\<close>

definition readVcfFile ::
  "tabix \<Rightarrow> (string \<Rightarrow> error + 'v vcf) \<Rightarrow> int \<Rightarrow> string option
     \<Rightarrow> string list \<times> (error + 'v list)" where
  "readVcfFile tbiIndexed VCF limit filter_text =
     (case getHeader tbiIndexed of
        Inl e \<Rightarrow> ([], Inl e)
      | Inr headerText \<Rightarrow>
          (case VCF headerText of
             Inl e \<Rightarrow> ([], Inl e)
           | Inr tbiVCFParser \<Rightarrow>
               (case contig tbiVCFParser of
                  None \<Rightarrow> ([], Inl TypeError)
                | Some refNames \<Rightarrow>
                    refNames_loop tbiIndexed (lineCallback tbiVCFParser limit filter_text)
                      [] [] refNames)))"

definition default_limit :: int where
  "default_limit = 1000"

subsection \<open>URL encoding: \<^verbatim>\<open>encodeUrl\<close>\<close>

text \<open>\<^verbatim>\<open>encodeURIComponent\<close> on the UTF-8 bytes of a string: letters, digits and
  \<^verbatim>\<open>- _ . ! ~ * ' ( )\<close> are kept, every other byte becomes \<^verbatim>\<open>%XX\<close>.\<close>

definition unreserved :: "char \<Rightarrow> bool" where
  "unreserved c =
     (c \<in> set (''ABCDEFGHIJKLMNOPQRSTUVWXYZabcdefghijklmnopqrstuvwxyz0123456789-_.!~*()''
               @ [CHR 0x27]))"

definition hex_char :: "nat \<Rightarrow> char" where
  "hex_char d = ''0123456789ABCDEF'' ! (d mod 16)"

definition percent_encode :: "char \<Rightarrow> string" where
  "percent_encode c =
     [CHR ''%'', hex_char ((of_char c :: nat) div 16), hex_char ((of_char c :: nat) mod 16)]"

definition encodeURIComponent :: "string \<Rightarrow> string" where
  "encodeURIComponent s = concat (map (\<lambda>c. if unreserved c then [c] else percent_encode c) s)"

text \<open>
  \<^verbatim>\<open>
  export function encodeUrl(object, encode = false) {
    return Object.entries(object)
      .map(([k, v]) => `${encode ? encodeURIComponent(k) : k}=${(Array.isArray(v) ? v : [v])
         .map(v => encode ? encodeURIComponent(v) : v).join(",")}`)
      .join("&");
  }
  \<close>
  An object is the list of its entries in insertion order; a value is a string or an array
  of strings.
\<close>

datatype url_value = Single string | Array "string list"

definition encodeUrl :: "(string \<times> url_value) list \<Rightarrow> bool \<Rightarrow> string" where
  "encodeUrl object encode =
     join ''&'' (map (\<lambda>(k, v).
        (if encode then encodeURIComponent k else k) @ ''='' @
        join '','' (map (\<lambda>v. if encode then encodeURIComponent v else v)
                      (case v of Array vs \<Rightarrow> vs | Single v \<Rightarrow> [v]))) object)"

subsection \<open>The record assembler: \<^verbatim>\<open>processVariantConsequences\<close>\<close>

text \<open>A transcript consequence and a prediction of the consequence service (the fields the
  module reads), and a structure candidate of the structure mapper.\<close>

record consequence =
  gene_id :: "string option"
  swissprot :: "string list option"
  amino_acids :: "string option"
  protein_start :: "int option"
  sift_prediction :: "string option"
  sift_score :: "rat option"
  polyphen_prediction :: "string option"
  polyphen_score :: "rat option"

record prediction =
  input :: "string option"
  transcript_consequences :: "consequence list option"

record candidate =
  pdb_id :: string
  chain_id :: string
  coverage :: rat
  resolution :: "rat option"

text \<open>The output record; \<open>pdbStructures\<close> is the property the second loop adds.\<close>

record result =
  variant :: "string option"
  geneId :: "string option"
  uniprotId :: string
  pdbId :: "string option"
  aminoAcids :: "string list"
  aminoAcidMutation :: string
  aminoAcidMutationPosition :: "int option"
  siftPrediction :: "string option"
  siftScore :: "rat option"
  polyphenPrediction :: "string option"
  polyphenScore :: "rat option"
  icn3dPdb :: "string option"
  icn3dAlphafold :: "string option"
  consequence :: consequence
  pdbStructures :: "candidate list option"

text \<open>The clock: what \<^verbatim>\<open>new Date()\<close> answers to \<^verbatim>\<open>getFullYear\<close>, \<^verbatim>\<open>getMonth\<close> (from 0) and
  \<^verbatim>\<open>getDate\<close>.\<close>

record js_date =
  getFullYear :: int
  getMonth :: int
  getDate :: int

definition date_param :: "js_date \<Rightarrow> string" where
  "date_param date =
     join [] (map number_toString [getFullYear date, getMonth date + 1, getDate date])"

definition icn3d_url :: string where
  "icn3d_url = ''https://www.ncbi.nlm.nih.gov/Structure/icn3d/full.html''"

text \<open>A string or \<open>null\<close> in a template literal (\<open>pdbId\<close> starts as \<open>null\<close>), a number or
  \<open>undefined\<close> in a template literal, and \<^verbatim>\<open>position + offset\<close> with
  \<^verbatim>\<open>offset = 0\<close> in a template literal (\<open>undefined + 0\<close> is \<open>NaN\<close>).\<close>

definition template_null :: "string option \<Rightarrow> string" where
  "template_null e = (case e of None \<Rightarrow> ''null'' | Some s \<Rightarrow> s)"

definition template_number :: "int option \<Rightarrow> string" where
  "template_number n = template (map_option number_toString n)"

definition template_sum :: "int option \<Rightarrow> int \<Rightarrow> string" where
  "template_sum n offset = (case n of None \<Rightarrow> ''NaN'' | Some k \<Rightarrow> number_toString (k + offset))"

text \<open>
  \<^verbatim>\<open>
  async function getIcn3dAlphafoldUrl(result) {
    let url = 'https://www.ncbi.nlm.nih.gov/Structure/icn3d/full.html';
    let date = new Date();
    const params = {
      afid: result.uniprotId,
      date: [date.getFullYear(), date.getMonth() + 1, date.getDate()].join(""),
      v: "3.12.7",
      command: [
        "view annotations", "set annotation cdd", "set view detailed view",
        "set thickness | stickrad 0.2",
        `add track | chainid ${result.uniprotId}_A | title SIFT_predict | text ${result.aminoAcidMutationPosition} ${result.aminoAcids[1]}`,
        `add track | chainid ${result.uniprotId}_A | title Polyphen_predict | text ${result.aminoAcidMutationPosition} ${result.aminoAcids[1]}`,
        `scap interaction ${result.uniprotId}_A_${result.aminoAcidMutationPosition}_${result.aminoAcids[1]}`
      ].join("; ")
    }
    return url + '?' + encodeUrl(params, true);
  }
  \<close>
\<close>

definition getIcn3dAlphafoldUrl :: "js_date \<Rightarrow> result \<Rightarrow> string" where
  "getIcn3dAlphafoldUrl date result =
     (let position = template_number (aminoAcidMutationPosition result);
          after = template (at_index (aminoAcids result) 1);
          params =
            [(''afid'', Single (uniprotId result)),
             (''date'', Single (date_param date)),
             (''v'', Single ''3.12.7''),
             (''command'', Single (join ''; ''
               [''view annotations'',
                ''set annotation cdd'',
                ''set view detailed view'',
                ''set thickness | stickrad 0.2'',
                ''add track | chainid '' @ uniprotId result @ ''_A | title SIFT_predict | text ''
                  @ position @ '' '' @ after,
                ''add track | chainid '' @ uniprotId result @ ''_A | title Polyphen_predict | text ''
                  @ position @ '' '' @ after,
                ''scap interaction '' @ uniprotId result @ ''_A_'' @ position @ ''_'' @ after]))]
      in icn3d_url @ ''?'' @ encodeUrl params True)"

text \<open>\<^verbatim>\<open>getIcn3dPdbUrl\<close> is the same with \<^verbatim>\<open>pdbid: result.pdbId\<close>, the chain key
  \<^verbatim>\<open>${result.pdbId}\<close> and the position \<^verbatim>\<open>${result.aminoAcidMutationPosition + offset}\<close>,
  where \<^verbatim>\<open>let offset = 0\<close>.\<close>

definition getIcn3dPdbUrl :: "js_date \<Rightarrow> result \<Rightarrow> string" where
  "getIcn3dPdbUrl date result =
     (let offset = 0;
          position = template_sum (aminoAcidMutationPosition result) offset;
          after = template (at_index (aminoAcids result) 1);
          params =
            [(''pdbid'', Single (template_null (pdbId result))),
             (''date'', Single (date_param date)),
             (''v'', Single ''3.12.7''),
             (''command'', Single (join ''; ''
               [''view annotations'',
                ''set annotation cdd'',
                ''set view detailed view'',
                ''set thickness | stickrad 0.2'',
                ''add track | chainid '' @ template_null (pdbId result) @ '' | title SIFT_predict | text ''
                  @ position @ '' '' @ after,
                ''add track | chainid '' @ template_null (pdbId result) @ '' | title Polyphen_predict | text ''
                  @ position @ '' '' @ after,
                ''scap interaction '' @ template_null (pdbId result) @ ''_'' @ position @ ''_'' @ after]))]
      in icn3d_url @ ''?'' @ encodeUrl params True)"

text \<open>
  The first loop.
  \<^verbatim>\<open>
  for (const result of data) {
    const consequence = result?.transcript_consequences?.find(
      (c) => (c.sift_prediction || c.polyphen_prediction) && c.swissprot?.length);
    if (!consequence) continue;
    const uniprotId = consequence.swissprot[0].split(".")[0];
    const aminoAcids = consequence.amino_acids.split("/");
    const aminoAcidMutation = [aminoAcids[0], consequence.protein_start, aminoAcids[1]].join("");
    results.push({ variant: result.input, geneId: consequence.gene_id, uniprotId, pdbId: null,
      aminoAcids, aminoAcidMutation, aminoAcidMutationPosition: consequence.protein_start,
      siftPrediction: consequence.sift_prediction, siftScore: consequence.sift_score,
      polyphenPrediction: consequence.polyphen_prediction,
      polyphenScore: consequence.polyphen_score,
      icn3dPdb: null, icn3dAlphafold: null, consequence });
  }
  \<close>
  An element of \<open>data\<close> may be \<open>null\<close> (\<open>None\<close>). \<open>accession\<close> is \<^verbatim>\<open>.split(".")[0]\<close>, the
  part before the first dot (\<^verbatim>\<open>split\<close> always gives a first part). A missing \<^verbatim>\<open>amino_acids\<close> makes
  \<^verbatim>\<open>.split\<close> throw, which ends the whole call.
\<close>

definition accession :: "string \<Rightarrow> string" where
  "accession first_id = (case split CHR ''.'' first_id of [] \<Rightarrow> [] | part # _ \<Rightarrow> part)"

definition eligible :: "consequence \<Rightarrow> bool" where
  "eligible c =
     ((truthy_string (sift_prediction c) \<or> truthy_string (polyphen_prediction c))
      \<and> (case swissprot c of None \<Rightarrow> False | Some ids \<Rightarrow> length ids \<noteq> 0))"

definition select_consequence :: "prediction \<Rightarrow> consequence option" where
  "select_consequence result =
     (case transcript_consequences result of
        None \<Rightarrow> None
      | Some cs \<Rightarrow> find eligible cs)"

definition assemble_record :: "prediction \<Rightarrow> consequence \<Rightarrow> error + result" where
  "assemble_record result c =
     (case swissprot c of
        None \<Rightarrow> Inl TypeError
      | Some ids \<Rightarrow>
          (case at_index ids 0 of
             None \<Rightarrow> Inl TypeError
           | Some first_id \<Rightarrow>
               (case amino_acids c of
                  None \<Rightarrow> Inl TypeError
                | Some amino \<Rightarrow>
                    (let parts = split CHR ''/'' amino in
                     Inr \<lparr>variant = input result,
                          geneId = gene_id c,
                          uniprotId = accession first_id,
                          pdbId = None,
                          aminoAcids = parts,
                          aminoAcidMutation = join []
                            (map join_element
                               [at_index parts 0,
                                map_option number_toString (protein_start c),
                                at_index parts 1]),
                          aminoAcidMutationPosition = protein_start c,
                          siftPrediction = sift_prediction c,
                          siftScore = sift_score c,
                          polyphenPrediction = polyphen_prediction c,
                          polyphenScore = polyphen_score c,
                          icn3dPdb = None,
                          icn3dAlphafold = None,
                          consequence = c,
                          pdbStructures = None\<rparr>))))"

fun assemble_loop :: "prediction option list \<Rightarrow> result list \<Rightarrow> error + result list" where
  "assemble_loop [] results = Inr results"
| "assemble_loop (None # data) results = assemble_loop data results"
| "assemble_loop (Some result # data) results =
     (case select_consequence result of
        None \<Rightarrow> assemble_loop data results
      | Some c \<Rightarrow>
          (case assemble_record result c of
             Inl e \<Rightarrow> Inl e
           | Inr r \<Rightarrow> assemble_loop data (results @ [r])))"

text \<open>
  The second loop.
  \<^verbatim>\<open>
  for (let result of results) {
    if (!bestStructures[result.uniprotId]) continue;
    const pdbStructures = bestStructures[result.uniprotId];
    const highestResolutionStructure = pdbStructures[0];
    result.pdbId = [highestResolutionStructure.pdb_id, highestResolutionStructure.chain_id].join("_");
    result.pdbStructures = pdbStructures;
  }
  \<close>
  The mapper's answer is a map from accession to candidate list. An empty candidate list is
  truthy, and reading \<^verbatim>\<open>pdb_id\<close> of its element 0 throws.
\<close>

definition attach_structure ::
  "(string \<Rightarrow> candidate list option) \<Rightarrow> result \<Rightarrow> error + result" where
  "attach_structure bestStructures result =
     (case bestStructures (uniprotId result) of
        None \<Rightarrow> Inr result
      | Some structures \<Rightarrow>
          (case at_index structures 0 of
             None \<Rightarrow> Inl TypeError
           | Some highestResolutionStructure \<Rightarrow>
               Inr (result
                 \<lparr>pdbId := Some (join ''_'' [pdb_id highestResolutionStructure,
                                           chain_id highestResolutionStructure]),
                  pdbStructures := Some structures\<rparr>)))"

fun structures_loop ::
  "(string \<Rightarrow> candidate list option) \<Rightarrow> result list \<Rightarrow> error + result list" where
  "structures_loop bestStructures [] = Inr []"
| "structures_loop bestStructures (result # rest) =
     (case attach_structure bestStructures result of
        Inl e \<Rightarrow> Inl e
      | Inr result' \<Rightarrow>
          (case structures_loop bestStructures rest of
             Inl e \<Rightarrow> Inl e
           | Inr rest' \<Rightarrow> Inr (result' # rest')))"

text \<open>
  The third loop.
  \<^verbatim>\<open>
  for (let result of results) {
    if (result.siftPrediction !== "deleterious" && result.polyphenPrediction !== "probably_damaging") continue;
    if (result.pdbId) result.icn3dPdb = await getIcn3dPdbUrl(result);
    result.icn3dAlphafold = await getIcn3dAlphafoldUrl(result);
  }
  \<close>
\<close>

definition add_commands :: "js_date \<Rightarrow> result \<Rightarrow> result" where
  "add_commands date result =
     (if siftPrediction result \<noteq> Some ''deleterious''
         \<and> polyphenPrediction result \<noteq> Some ''probably_damaging''
      then result
      else (let result' = (if truthy_string (pdbId result)
                           then result\<lparr>icn3dPdb := Some (getIcn3dPdbUrl date result)\<rparr>
                           else result)
            in result'\<lparr>icn3dAlphafold := Some (getIcn3dAlphafoldUrl date result')\<rparr>))"

text \<open>
  \<^verbatim>\<open>
  async function processVariantConsequences(data) {
    const results = [];
    for (const result of data) { ... }
    const bestStructures = await getBestStructures(results.map((r) => r.uniprotId));
    for (let result of results) { ... }
    for (let result of results) { ... }
    return results;
  }
  \<close>
  The structure mapper \<open>getBestStructures\<close> is a remote service: a parameter that answers a
  list of accessions with a map, or fails. The function returns, beside its outcome, the
  arguments of the calls it made to the mapper, in call order.
\<close>

definition processVariantConsequences ::
  "(string list \<Rightarrow> error + (string \<Rightarrow> candidate list option)) \<Rightarrow> js_date
     \<Rightarrow> prediction option list \<Rightarrow> string list list \<times> (error + result list)" where
  "processVariantConsequences getBestStructures date data =
     (case assemble_loop data [] of
        Inl e \<Rightarrow> ([], Inl e)
      | Inr results \<Rightarrow>
          (let uniprotIds = map uniprotId results in
           (case getBestStructures uniprotIds of
              Inl e \<Rightarrow> ([uniprotIds], Inl e)
            | Inr bestStructures \<Rightarrow>
                (case structures_loop bestStructures results of
                   Inl e \<Rightarrow> ([uniprotIds], Inl e)
                 | Inr results' \<Rightarrow> ([uniprotIds], Inr (map (add_commands date) results'))))))"

text \<open>A record as the first loop pushes it: no structure and no command yet.\<close>

definition fresh :: "result \<Rightarrow> bool" where
  "fresh r = (pdbId r = None \<and> icn3dPdb r = None \<and> icn3dAlphafold r = None \<and> pdbStructures r = None)"

text \<open>The high-impact predicate of the specification, on an output record.\<close>

definition high_impact :: "result \<Rightarrow> bool" where
  "high_impact r =
     (siftPrediction r = Some ''deleterious'' \<or> polyphenPrediction r = Some ''probably_damaging'')"

subsection \<open>The protein-id-mapping client: \<^verbatim>\<open>getProteinIds\<close>\<close>

text \<open>A JSON value, and its truthiness: \<open>null\<close>, \<open>false\<close>, \<open>0\<close> and the empty string are
  falsy, every array and object is truthy.\<close>

datatype json =
  JNull | JBool bool | JNumber int | JString string | JArray "json list"
  | JObject "(string \<times> json) list"

fun truthy :: "json \<Rightarrow> bool" where
  "truthy JNull = False"
| "truthy (JBool b) = b"
| "truthy (JNumber n) = (n \<noteq> 0)"
| "truthy (JString s) = (s \<noteq> [])"
| "truthy (JArray xs) = True"
| "truthy (JObject kvs) = True"

text \<open>
  The remote service, as the client sees it: \<open>run\<close> answers the posted body with the
  \<^verbatim>\<open>jobId\<close> field of its JSON answer (absent: \<open>None\<close>), and \<open>status\<close> answers the \<open>n\<close>-th status
  request with the \<^verbatim>\<open>results\<close> field of its JSON answer (absent: \<open>None\<close>); either may
  fail. What the client does is recorded as a list of effects: a POST with its body, a GET,
  or a sleep of so many milliseconds.
\<close>

record idmapping_service =
  run :: "string \<Rightarrow> error + string option"
  status :: "nat \<Rightarrow> string \<Rightarrow> error + json option"

datatype effect = Post string string | Get string | Sleep nat

text \<open>
  \<^verbatim>\<open>
  let status = { results: null };
  while (!status.results) {
    const statusResponse = await fetch(`${url}/status/${jobId}`);
    status = await statusResponse.json();
    if (!status.results) {
      await sleep(1000);
    }
  }
  return status.results;
  \<close>
  The loop has no bound, so it is a partial function: \<open>None\<close> stands for "never returns".
\<close>

partial_function (option) poll_loop ::
  "idmapping_service \<Rightarrow> string \<Rightarrow> nat \<Rightarrow> effect list \<Rightarrow> (effect list \<times> (error + json)) option" where
  "poll_loop service statusUrl n trace =
     (case status service n statusUrl of
        Inl e \<Rightarrow> Some (trace @ [Get statusUrl], Inl e)
      | Inr results \<Rightarrow>
          (case results of
             None \<Rightarrow> poll_loop service statusUrl (Suc n) (trace @ [Get statusUrl, Sleep 1000])
           | Some r \<Rightarrow>
               if truthy r then Some (trace @ [Get statusUrl], Inr r)
               else poll_loop service statusUrl (Suc n) (trace @ [Get statusUrl, Sleep 1000])))"

declare poll_loop.simps [code]

text \<open>
  \<^verbatim>\<open>
  export async function getProteinIds(ids, from = "Ensembl", to = "UniProtKB-Swiss-Prot") {
    const url = "https://rest.uniprot.org/idmapping";
    const runResponse = await fetch(`${url}/run`, { method: "post",
      body: encodeUrl({ from, to, ids }), headers: { ... } });
    const { jobId } = await runResponse.json();
    ...
  }
  \<close>
\<close>

definition idmapping_url :: string where
  "idmapping_url = ''https://rest.uniprot.org/idmapping''"

definition run_body :: "url_value \<Rightarrow> string \<Rightarrow> string \<Rightarrow> string" where
  "run_body ids from_db to_db =
     encodeUrl [(''from'', Single from_db), (''to'', Single to_db), (''ids'', ids)] False"

definition status_url :: "string option \<Rightarrow> string" where
  "status_url jobId = idmapping_url @ ''/status/'' @ template jobId"

definition getProteinIds ::
  "idmapping_service \<Rightarrow> url_value \<Rightarrow> string \<Rightarrow> string \<Rightarrow> (effect list \<times> (error + json)) option" where
  "getProteinIds service ids from_db to_db =
     (let submit = Post (idmapping_url @ ''/run'') (run_body ids from_db to_db) in
      case run service (run_body ids from_db to_db) of
        Inl e \<Rightarrow> Some ([submit], Inl e)
      | Inr jobId \<Rightarrow> poll_loop service (status_url jobId) 0 [submit])"

text \<open>The trace of a call that returns on its \<open>n\<close>-th status request (counted from 0).\<close>

definition polling_trace :: "url_value \<Rightarrow> string \<Rightarrow> string \<Rightarrow> string option \<Rightarrow> nat \<Rightarrow> effect list" where
  "polling_trace ids from_db to_db jobId n =
     Post (idmapping_url @ ''/run'') (run_body ids from_db to_db)
       # concat (replicate n [Get (status_url jobId), Sleep 1000]) @ [Get (status_url jobId)]"

text \<open>A status answer that keeps the loop going: it arrived, and its \<^verbatim>\<open>results\<close> field is
  absent or falsy.\<close>

definition falsy_results :: "error + json option \<Rightarrow> bool" where
  "falsy_results answer =
     (case answer of Inl e \<Rightarrow> False | Inr None \<Rightarrow> True | Inr (Some r) \<Rightarrow> \<not> truthy r)"

text \<open>A service that answers the third status request with a result, and one that never
  does.\<close>

definition example_service :: idmapping_service where
  "example_service =
     \<lparr>run = (\<lambda>body. Inr (Some ''job1'')),
      status = (\<lambda>n url. if n < 2 then Inr None else Inr (Some (JArray [JString ''P12345''])))\<rparr>"

definition pending_service :: idmapping_service where
  "pending_service =
     \<lparr>run = (\<lambda>body. Inr (Some ''job1'')), status = (\<lambda>n url. Inr (Some JNull))\<rparr>"

subsection \<open>The end-to-end scenario\<close>

text \<open>Variant A has no transcript consequences; variant B has one eligible consequence;
  variant C is B with the predictions \<open>tolerated\<close> and \<open>benign\<close>. The mapper knows one
  structure for \<open>P12345\<close>, or none.\<close>

definition consequence_B :: consequence where
  "consequence_B =
     \<lparr>gene_id = Some ''ENSG00000000001'', swissprot = Some [''P12345.2''],
      amino_acids = Some ''A/V'', protein_start = Some 42,
      sift_prediction = Some ''deleterious'', sift_score = Some 0,
      polyphen_prediction = None, polyphen_score = None\<rparr>"

definition consequence_C :: consequence where
  "consequence_C =
     consequence_B\<lparr>sift_prediction := Some ''tolerated'', polyphen_prediction := Some ''benign''\<rparr>"

definition variant_A :: prediction where
  "variant_A = \<lparr>input = Some ''1 100 . A T .'', transcript_consequences = None\<rparr>"

definition variant_B :: prediction where
  "variant_B = \<lparr>input = Some ''1 200 . C T .'', transcript_consequences = Some [consequence_B]\<rparr>"

definition variant_C :: prediction where
  "variant_C = \<lparr>input = Some ''1 300 . G A .'', transcript_consequences = Some [consequence_C]\<rparr>"

definition example_date :: js_date where
  "example_date = \<lparr>getFullYear = 2023, getMonth = 2, getDate = 7\<rparr>"

definition example_structures :: "string \<Rightarrow> candidate list option" where
  "example_structures uniprot_id =
     (if uniprot_id = ''P12345''
      then Some [\<lparr>pdb_id = ''1abc'', chain_id = ''A'', coverage = 1, resolution = Some 2\<rparr>,
                 \<lparr>pdb_id = ''2xyz'', chain_id = ''B'', coverage = 1, resolution = Some 2\<rparr>]
      else None)"

definition no_structures :: "string \<Rightarrow> candidate list option" where
  "no_structures uniprot_id = None"

definition example_getBestStructures ::
  "string list \<Rightarrow> error + (string \<Rightarrow> candidate list option)" where
  "example_getBestStructures uniprotIds = Inr example_structures"

definition unmapped_getBestStructures ::
  "string list \<Rightarrow> error + (string \<Rightarrow> candidate list option)" where
  "unmapped_getBestStructures uniprotIds = Inr no_structures"

text \<open>The records the first loop assembles for B and for C, and a record with the first
  structure of \<open>P12345\<close> attached.\<close>

definition record_B :: result where
  "record_B =
     \<lparr>variant = Some ''1 200 . C T .'', geneId = Some ''ENSG00000000001'',
      uniprotId = ''P12345'', pdbId = None, aminoAcids = [''A'', ''V''],
      aminoAcidMutation = ''A42V'', aminoAcidMutationPosition = Some 42,
      siftPrediction = Some ''deleterious'', siftScore = Some 0,
      polyphenPrediction = None, polyphenScore = None,
      icn3dPdb = None, icn3dAlphafold = None,
      consequence = consequence_B, pdbStructures = None\<rparr>"

definition record_C :: result where
  "record_C =
     record_B\<lparr>variant := Some ''1 300 . G A .'', siftPrediction := Some ''tolerated'',
              polyphenPrediction := Some ''benign'', consequence := consequence_C\<rparr>"

definition attached :: "result \<Rightarrow> result" where
  "attached r = r\<lparr>pdbId := Some ''1abc_A'', pdbStructures := example_structures ''P12345''\<rparr>"





text \<open>A small indexed file used to run the reader: two reference sequences, two lines on
  the first and one on the second, read by a parser that keeps the line as the record.\<close>

definition example_tabix :: tabix where
  "example_tabix =
     \<lparr>getHeader = Inr ''##fileformat=VCFv4.2'',
      getLines = (\<lambda>refName.
        if refName = ''chr1'' then Inr [''chr1 100 . A T'', ''chr1 200 rs7 G C'']
        else if refName = ''chr2'' then Inr [''chr2 50 . C G'']
        else Inr [])\<rparr>"

definition example_VCF :: "string \<Rightarrow> error + string vcf" where
  "example_VCF headerText = Inr \<lparr>contig = Some [''chr1'', ''chr2''], parseLine = Inr\<rparr>"

subsection \<open>The batcher: \<^verbatim>\<open>chunk\<close>\<close>

text \<open>
  \<^verbatim>\<open>
  export function* chunk(array, chunkSize = 200) {
    for (let i = 0; i < array.length; i += chunkSize) {
      yield array.slice(i, i + chunkSize);
    }
  }
  \<close>
  The generator is modelled by the list of the batches it yields. With \<open>chunkSize = 0\<close> the
  index never advances and the generator never finishes on a non-empty array, so the loop is
  a partial function: \<open>None\<close> stands for "does not finish".
\<close>

partial_function (option) chunk_loop :: "'a list \<Rightarrow> nat \<Rightarrow> nat \<Rightarrow> 'a list list option" where
  "chunk_loop array chunkSize i =
     (if i < length array
      then Option.bind (chunk_loop array chunkSize (i + chunkSize))
             (\<lambda>rest. Some (slice array i (i + chunkSize) # rest))
      else Some [])"

declare chunk_loop.simps [code]

definition chunk :: "'a list \<Rightarrow> nat \<Rightarrow> 'a list list option" where
  "chunk array chunkSize = chunk_loop array chunkSize 0"

text \<open>The default of the parameter, and the value the pipeline driver passes.\<close>

definition default_chunkSize :: nat where
  "default_chunkSize = 200"

section \<open>Properties\<close>

subsection \<open>Batching\<close>

lemma chunk_loop_spec:
  assumes "1 \<le> chunkSize"
  shows "\<exists>bs. chunk_loop array chunkSize i = Some bs
           \<and> concat bs = drop i array
           \<and> (\<forall>b \<in> set (butlast bs). length b = chunkSize)
           \<and> (bs \<noteq> [] \<longrightarrow> 1 \<le> length (last bs) \<and> length (last bs) \<le> chunkSize)"
proof (induction "length array - i" arbitrary: i rule: less_induct)
  case less
  show ?case
  proof (cases "i < length array")
    case False
    then show ?thesis
      by (subst chunk_loop.simps) simp
  next
    case True
    let ?j = "i + chunkSize"
    have "length array - ?j < length array - i"
      using True assms by arith
    from less [OF this] obtain rest where
      rest: "chunk_loop array chunkSize ?j = Some rest"
        "concat rest = drop ?j array"
        "\<forall>b \<in> set (butlast rest). length b = chunkSize"
        "rest \<noteq> [] \<longrightarrow> 1 \<le> length (last rest) \<and> length (last rest) \<le> chunkSize"
      by blast
    let ?b = "slice array i ?j"
    have run: "chunk_loop array chunkSize i = Some (?b # rest)"
      using True rest(1) by (subst chunk_loop.simps) simp
    have len: "length ?b = min chunkSize (length array - i)"
      by (simp add: slice_def)
    have "?b @ drop ?j array = drop i array"
    proof -
      have "take chunkSize (drop i array) @ drop chunkSize (drop i array) = drop i array"
        by (rule append_take_drop_id)
      then show ?thesis
        by (simp add: slice_def take_drop add.commute)
    qed
    then have cat: "concat (?b # rest) = drop i array"
      using rest(2) by simp
    have nonempty_rest: "rest \<noteq> [] \<Longrightarrow> ?j < length array"
    proof (rule ccontr)
      assume "rest \<noteq> []" and "\<not> ?j < length array"
      then have "chunk_loop array chunkSize ?j = Some []"
        by (subst chunk_loop.simps) simp
      with rest(1) \<open>rest \<noteq> []\<close> show False
        by simp
    qed
    have full: "\<forall>b \<in> set (butlast (?b # rest)). length b = chunkSize"
    proof (cases "rest = []")
      case True
      then show ?thesis by simp
    next
      case False
      with nonempty_rest have "?j < length array" by simp
      then have "length ?b = chunkSize"
        using len by simp
      with rest(3) False show ?thesis by simp
    qed
    have final: "1 \<le> length (last (?b # rest)) \<and> length (last (?b # rest)) \<le> chunkSize"
    proof (cases "rest = []")
      case True
      then show ?thesis
        using len \<open>i < length array\<close> assms by simp
    next
      case False
      then show ?thesis
        using rest(4) by simp
    qed
    from run cat full final show ?thesis
      by blast
  qed
qed

text \<open>
  Claim C5. For every finite sequence and every batch size of at least 1, the batcher
  finishes, and the batches it yields, concatenated in order, are the original sequence;
  every batch but the last has exactly \<open>chunkSize\<close> elements, and the last one has between 1
  and \<open>chunkSize\<close> elements.
\<close>

theorem chunk_concat_and_sizes:
  assumes "1 \<le> chunkSize"
  shows "\<exists>bs. chunk array chunkSize = Some bs
           \<and> concat bs = array
           \<and> (\<forall>b \<in> set (butlast bs). length b = chunkSize)
           \<and> (bs \<noteq> [] \<longrightarrow> 1 \<le> length (last bs) \<and> length (last bs) \<le> chunkSize)"
  using chunk_loop_spec [OF assms, of array 0] by (simp add: chunk_def)

theorem chunk_concat_and_sizes_witness:
  "(1::nat) \<le> 2 \<and> (\<exists>bs. chunk [1, 2, 3, 4, 5 :: nat] 2 = Some bs
           \<and> concat bs = [1, 2, 3, 4, 5]
           \<and> (\<forall>b \<in> set (butlast bs). length b = 2)
           \<and> (bs \<noteq> [] \<longrightarrow> 1 \<le> length (last bs) \<and> length (last bs) \<le> 2))"
  using chunk_concat_and_sizes [of 2 "[1, 2, 3, 4, 5 :: nat]"] by simp

subsection \<open>The indexed variant reader\<close>

lemma lines_loop_take:
  assumes "\<forall>l \<in> set ls. \<exists>v. parseLine parser l = Inr v"
  shows "lines_loop (lineCallback parser limit flt) vs ls
       = Inr (vs @ take (nat limit - length vs)
                (map (\<lambda>l. projr (parseLine parser l)) (filter (filter_accepts flt) ls)))"
  using assms
proof (induction ls arbitrary: vs)
  case Nil
  then show ?case by simp
next
  case (Cons l ls)
  then obtain v where v: "parseLine parser l = Inr v" by auto
  have IH: "\<And>vs. lines_loop (lineCallback parser limit flt) vs ls
       = Inr (vs @ take (nat limit - length vs)
                (map (\<lambda>l. projr (parseLine parser l)) (filter (filter_accepts flt) ls)))"
    using Cons.IH Cons.prems by simp
  show ?case
  proof (cases "int (length vs) < limit \<and> filter_accepts flt l")
    case True
    then have "lineCallback parser limit flt vs l = Inr (vs @ [v])"
      by (simp add: lineCallback_def v)
    moreover have "nat limit - length vs = Suc (nat limit - Suc (length vs))"
      using True by arith
    ultimately show ?thesis
      using True by (simp add: IH v)
  next
    case False
    then have cb: "lineCallback parser limit flt vs l = Inr vs"
      by (auto simp add: lineCallback_def)
    show ?thesis
    proof (cases "filter_accepts flt l")
      case True
      with False have "nat limit - length vs = 0" by arith
      then show ?thesis by (simp add: cb IH)
    next
      case False
      then show ?thesis by (simp add: cb IH)
    qed
  qed
qed

lemma refNames_loop_take:
  assumes "\<forall>r \<in> set refs. \<exists>ls. getLines tbi r = Inr ls
              \<and> (\<forall>l \<in> set ls. \<exists>v. parseLine parser l = Inr v)"
  shows "refNames_loop tbi (lineCallback parser limit flt) vs calls refs
       = (calls @ refs, Inr (vs @ take (nat limit - length vs)
            (map (\<lambda>l. projr (parseLine parser l))
               (filter (filter_accepts flt) (concat (map (\<lambda>r. projr (getLines tbi r)) refs))))))"
  using assms
proof (induction refs arbitrary: vs calls)
  case Nil
  then show ?case by simp
next
  case (Cons r refs)
  then obtain ls where
    ls: "getLines tbi r = Inr ls" "\<forall>l \<in> set ls. \<exists>v. parseLine parser l = Inr v"
    by auto
  let ?p = "map (\<lambda>l. projr (parseLine parser l)) (filter (filter_accepts flt) ls)"
  let ?q = "map (\<lambda>l. projr (parseLine parser l))
              (filter (filter_accepts flt) (concat (map (\<lambda>r. projr (getLines tbi r)) refs)))"
  let ?vs = "vs @ take (nat limit - length vs) ?p"
  have step: "lines_loop (lineCallback parser limit flt) vs ls = Inr ?vs"
    by (rule lines_loop_take [OF ls(2)])
  have IH: "refNames_loop tbi (lineCallback parser limit flt) ?vs (calls @ [r]) refs
       = ((calls @ [r]) @ refs, Inr (?vs @ take (nat limit - length ?vs) ?q))"
    using Cons.IH Cons.prems by simp
  have "take (nat limit - length vs) (?p @ ?q)
      = take (nat limit - length vs) ?p @ take (nat limit - length ?vs) ?q"
    by (simp add: take_append min_def)
  then show ?case
    by (simp add: ls(1) step IH)
qed

lemma readVcfFile_valid:
  assumes "getHeader tbi = Inr headerText" and "VCF headerText = Inr parser"
    and "contig parser = Some refNames"
    and "\<forall>r \<in> set refNames. \<exists>ls. getLines tbi r = Inr ls
           \<and> (\<forall>l \<in> set ls. \<exists>v. parseLine parser l = Inr v)"
  shows "readVcfFile tbi VCF limit flt
       = (refNames, Inr (take (nat limit)
            (map (\<lambda>l. projr (parseLine parser l))
               (filter (filter_accepts flt)
                  (concat (map (\<lambda>r. projr (getLines tbi r)) refNames))))))"
  using refNames_loop_take [OF assms(4), of limit flt "[]" "[]"] assms(1-3)
  by (simp add: readVcfFile_def)

lemma example_getLines:
  "getLines example_tabix ''chr1'' = Inr [''chr1 100 . A T'', ''chr1 200 rs7 G C'']"
  "getLines example_tabix ''chr2'' = Inr [''chr2 50 . C G'']"
  by (simp_all add: example_tabix_def)

lemma example_valid:
  "\<forall>r \<in> set [''chr1'', ''chr2'']. \<exists>ls. getLines example_tabix r = Inr ls
      \<and> (\<forall>l \<in> set ls. \<exists>v. parseLine \<lparr>contig = Some [''chr1'', ''chr2''], parseLine = Inr\<rparr> l = Inr v)"
  by (simp add: example_getLines)

text \<open>
  Claim C3, as the code has it. The reader appends a record only while fewer than \<open>limit\<close>
  records are accumulated, so on a valid input it returns the first \<open>limit\<close> accepted lines;
  but it has no early exit: a block lookup (\<^verbatim>\<open>getLines\<close>) is issued for every reference
  sequence name (the keys of the header's contig table), in their order, whatever the limit.
\<close>

theorem readVcfFile_looks_up_every_reference:
  assumes "getHeader tbi = Inr headerText" and "VCF headerText = Inr parser"
    and "contig parser = Some refNames"
    and "\<forall>r \<in> set refNames. \<exists>ls. getLines tbi r = Inr ls
           \<and> (\<forall>l \<in> set ls. \<exists>v. parseLine parser l = Inr v)"
  shows "readVcfFile tbi VCF limit flt
       = (refNames, Inr (take (nat limit)
            (map (\<lambda>l. projr (parseLine parser l))
               (filter (filter_accepts flt)
                  (concat (map (\<lambda>r. projr (getLines tbi r)) refNames))))))"
  using assms readVcfFile_valid [of tbi headerText VCF parser refNames limit flt] by blast

theorem readVcfFile_looks_up_every_reference_witness:
  "readVcfFile example_tabix example_VCF 1 None = ([''chr1'', ''chr2''], Inr [''chr1 100 . A T''])"
  using readVcfFile_looks_up_every_reference
    [of example_tabix "''##fileformat=VCFv4.2''" example_VCF
        "\<lparr>contig = Some [''chr1'', ''chr2''], parseLine = Inr\<rparr>" "[''chr1'', ''chr2'']" 1 None]
    example_valid
  by (simp add: example_tabix_def example_VCF_def filter_accepts_def)

text \<open>
  Claim C3 as stated fails: with limit 1 the limit is reached on the first line of \<open>chr1\<close>
  (the lines of \<open>chr1\<close> alone already leave one record, and a record more is never added),
  and \<^verbatim>\<open>getLines\<close> is still called for \<open>chr2\<close>.
\<close>

theorem readVcfFile_lookup_after_limit:
  "lines_loop (lineCallback \<lparr>contig = Some [''chr1'', ''chr2''], parseLine = Inr\<rparr> 1 None) []
       [''chr1 100 . A T'', ''chr1 200 rs7 G C'']
     = Inr [''chr1 100 . A T'']
   \<and> fst (readVcfFile example_tabix example_VCF 1 None) = [''chr1'', ''chr2'']"
  by (simp add: readVcfFile_def example_tabix_def example_VCF_def lineCallback_def
      filter_accepts_def)

text \<open>
  Claim C4. On a valid indexed input (the header is read and parsed, it declares the
  reference sequences, and every line of every reference sequence is read and parsed) and
  with a non-negative limit, the reader returns, and returns at most \<open>limit\<close> records.
\<close>

theorem readVcfFile_at_most_limit:
  assumes "0 \<le> limit"
    and "getHeader tbi = Inr headerText" and "VCF headerText = Inr parser"
    and "contig parser = Some refNames"
    and "\<forall>r \<in> set refNames. \<exists>ls. getLines tbi r = Inr ls
           \<and> (\<forall>l \<in> set ls. \<exists>v. parseLine parser l = Inr v)"
  shows "\<exists>calls variants. readVcfFile tbi VCF limit flt = (calls, Inr variants)
           \<and> int (length variants) \<le> limit"
  using assms readVcfFile_valid [of tbi headerText VCF parser refNames limit flt] by simp

theorem readVcfFile_at_most_limit_witness:
  "\<exists>calls variants. readVcfFile example_tabix example_VCF 2 (Some ''chr'') = (calls, Inr variants)
           \<and> int (length variants) \<le> 2"
  using readVcfFile_at_most_limit
    [of 2 example_tabix "''##fileformat=VCFv4.2''" example_VCF
        "\<lparr>contig = Some [''chr1'', ''chr2''], parseLine = Inr\<rparr>" "[''chr1'', ''chr2'']" "Some ''chr''"]
    example_valid
  by (simp add: example_tabix_def example_VCF_def)

subsection \<open>The protein-id-mapping client\<close>

lemma poll_loop_step:
  assumes "falsy_results (status service n url)"
  shows "poll_loop service url n tr = poll_loop service url (Suc n) (tr @ [Get url, Sleep 1000])"
  using assms
  by (subst poll_loop.simps) (simp add: falsy_results_def split: sum.splits option.splits)

lemma poll_loop_skip:
  assumes "\<forall>m<k. falsy_results (status service (n + m) url)"
  shows "poll_loop service url n tr
       = poll_loop service url (n + k) (tr @ concat (replicate k [Get url, Sleep 1000]))"
  using assms
proof (induction k arbitrary: n tr)
  case 0
  then show ?case by simp
next
  case (Suc k)
  have first: "falsy_results (status service n url)"
    using Suc.prems by (metis add.right_neutral zero_less_Suc)
  have rest: "\<forall>m<k. falsy_results (status service (Suc n + m) url)"
    using Suc.prems by (metis Suc_less_eq add_Suc_shift)
  show ?case
    using poll_loop_step [OF first, of tr] Suc.IH [OF rest, of "tr @ [Get url, Sleep 1000]"]
    by simp
qed

lemma poll_loop_stop:
  assumes "status service n url = Inr (Some r)" and "truthy r"
  shows "poll_loop service url n tr = Some (tr @ [Get url], Inr r)"
  using assms by (subst poll_loop.simps) simp

lemma poll_loop_fail:
  assumes "status service n url = Inl e"
  shows "poll_loop service url n tr = Some (tr @ [Get url], Inl e)"
  using assms by (subst poll_loop.simps) simp

lemma poll_loop_Some_stops:
  assumes "poll_loop service url n tr = Some y"
  shows "\<exists>m\<ge>n. \<not> falsy_results (status service m url)"
proof (rule poll_loop.raw_induct
    [where P = "\<lambda>s u k t y. \<exists>m\<ge>k. \<not> falsy_results (status s m u)", OF _ assms])
  fix poll :: "idmapping_service \<Rightarrow> string \<Rightarrow> nat \<Rightarrow> effect list
                \<Rightarrow> (effect list \<times> (error + json)) option"
    and s u k t z
  assume IH: "\<And>s u k t z. poll s u k t = Some z \<Longrightarrow> \<exists>m\<ge>k. \<not> falsy_results (status s m u)"
    and body: "(case status s k u of
        Inl e \<Rightarrow> Some (t @ [Get u], Inl e)
      | Inr results \<Rightarrow>
          (case results of
             None \<Rightarrow> poll s u (Suc k) (t @ [Get u, Sleep 1000])
           | Some r \<Rightarrow>
               if truthy r then Some (t @ [Get u], Inr r)
               else poll s u (Suc k) (t @ [Get u, Sleep 1000]))) = Some z"
  show "\<exists>m\<ge>k. \<not> falsy_results (status s m u)"
  proof (cases "falsy_results (status s k u)")
    case False
    then show ?thesis by blast
  next
    case True
    with body have "poll s u (Suc k) (t @ [Get u, Sleep 1000]) = Some z"
      by (simp add: falsy_results_def split: sum.splits option.splits)
    from IH [OF this] show ?thesis
      by (meson Suc_leD)
  qed
qed

lemma poll_loop_never:
  assumes "\<forall>m. falsy_results (status service m url)"
  shows "poll_loop service url n tr = None"
proof (cases "poll_loop service url n tr")
  case None
  then show ?thesis .
next
  case (Some y)
  from poll_loop_Some_stops [OF this] assms show ?thesis by blast
qed

lemma poll_loop_returns_iff:
  "poll_loop service url 0 tr = Some (trace, Inr r)
   \<longleftrightarrow> (\<exists>n. status service n url = Inr (Some r) \<and> truthy r
          \<and> (\<forall>m<n. falsy_results (status service m url))
          \<and> trace = tr @ concat (replicate n [Get url, Sleep 1000]) @ [Get url])"
proof
  assume run: "poll_loop service url 0 tr = Some (trace, Inr r)"
  from poll_loop_Some_stops [OF run] obtain m where "\<not> falsy_results (status service m url)"
    by blast
  define n where "n = (LEAST m. \<not> falsy_results (status service m url))"
  have stop: "\<not> falsy_results (status service n url)"
    unfolding n_def using \<open>\<not> falsy_results (status service m url)\<close> by (rule LeastI)
  have before: "\<forall>m<n. falsy_results (status service m url)"
    unfolding n_def using not_less_Least by blast
  have skip: "poll_loop service url 0 tr
      = poll_loop service url n (tr @ concat (replicate n [Get url, Sleep 1000]))"
    using poll_loop_skip [of n service 0 url tr] before by simp
  show "\<exists>n. status service n url = Inr (Some r) \<and> truthy r
          \<and> (\<forall>m<n. falsy_results (status service m url))
          \<and> trace = tr @ concat (replicate n [Get url, Sleep 1000]) @ [Get url]"
  proof (cases "status service n url")
    case (Inl e)
    from poll_loop_fail [OF this] skip run show ?thesis by simp
  next
    case (Inr results)
    with stop obtain r' where r': "results = Some r'" "truthy r'"
      by (auto simp add: falsy_results_def split: option.splits)
    from poll_loop_stop [of service n url r'] Inr r' skip run
    have "trace = tr @ concat (replicate n [Get url, Sleep 1000]) @ [Get url]" and "r = r'"
      by simp_all
    with Inr r' before show ?thesis by blast
  qed
next
  assume "\<exists>n. status service n url = Inr (Some r) \<and> truthy r
          \<and> (\<forall>m<n. falsy_results (status service m url))
          \<and> trace = tr @ concat (replicate n [Get url, Sleep 1000]) @ [Get url]"
  then obtain n where n: "status service n url = Inr (Some r)" "truthy r"
    "\<forall>m<n. falsy_results (status service m url)"
    "trace = tr @ concat (replicate n [Get url, Sleep 1000]) @ [Get url]"
    by blast
  have "poll_loop service url 0 tr
      = poll_loop service url n (tr @ concat (replicate n [Get url, Sleep 1000]))"
    using poll_loop_skip [of n service 0 url tr] n(3) by simp
  with poll_loop_stop [OF n(1,2)] n(4) show "poll_loop service url 0 tr = Some (trace, Inr r)"
    by simp
qed

lemma falsy_results_null:
  "falsy_results (Inr None)" "falsy_results (Inr (Some JNull))"
  by (simp_all add: falsy_results_def)

text \<open>
  Claim C10. After the job is submitted, \<open>getProteinIds\<close> returns a value \<open>r\<close> exactly when some
  status request is answered with a non-null (truthy) \<^verbatim>\<open>results\<close> field \<open>r\<close> and every earlier
  one with an absent or falsy field; it then has made the submission, a status request
  followed by a sleep of 1000 ms for every earlier answer, and the last status request. It
  has no timeout: if every status answer has an absent or null \<^verbatim>\<open>results\<close> field, the call
  never returns.
\<close>

theorem getProteinIds_polls_until_results:
  assumes "run service (run_body ids from_db to_db) = Inr jobId"
  shows "(getProteinIds service ids from_db to_db = Some (trace, Inr r)
          \<longleftrightarrow> (\<exists>n. status service n (status_url jobId) = Inr (Some r) \<and> r \<noteq> JNull \<and> truthy r
                 \<and> (\<forall>m<n. falsy_results (status service m (status_url jobId)))
                 \<and> trace = polling_trace ids from_db to_db jobId n))
       \<and> ((\<forall>n. status service n (status_url jobId) = Inr None
                \<or> status service n (status_url jobId) = Inr (Some JNull))
            \<longrightarrow> getProteinIds service ids from_db to_db = None)"
proof (intro conjI impI)
  have "truthy r \<Longrightarrow> r \<noteq> JNull"
    by auto
  then show "getProteinIds service ids from_db to_db = Some (trace, Inr r)
          \<longleftrightarrow> (\<exists>n. status service n (status_url jobId) = Inr (Some r) \<and> r \<noteq> JNull \<and> truthy r
                 \<and> (\<forall>m<n. falsy_results (status service m (status_url jobId)))
                 \<and> trace = polling_trace ids from_db to_db jobId n)"
    using assms poll_loop_returns_iff [of service "status_url jobId" _ trace r]
    by (auto simp add: getProteinIds_def polling_trace_def)
next
  assume "\<forall>n. status service n (status_url jobId) = Inr None
             \<or> status service n (status_url jobId) = Inr (Some JNull)"
  then have "\<forall>m. falsy_results (status service m (status_url jobId))"
    by (metis falsy_results_null)
  from poll_loop_never [OF this] assms
  show "getProteinIds service ids from_db to_db = None"
    by (simp add: getProteinIds_def)
qed

theorem getProteinIds_polls_until_results_witness:
  "getProteinIds example_service (Array [''ENSG1'', ''ENSG2'']) ''Ensembl'' ''UniProtKB-Swiss-Prot''
     = Some (polling_trace (Array [''ENSG1'', ''ENSG2'']) ''Ensembl'' ''UniProtKB-Swiss-Prot''
               (Some ''job1'') 2,
             Inr (JArray [JString ''P12345'']))
   \<and> getProteinIds pending_service (Array [''ENSG1'', ''ENSG2'']) ''Ensembl'' ''UniProtKB-Swiss-Prot''
     = None"
proof
  have submitted: "run example_service
      (run_body (Array [''ENSG1'', ''ENSG2'']) ''Ensembl'' ''UniProtKB-Swiss-Prot'') = Inr (Some ''job1'')"
    by (simp add: example_service_def)
  have "status example_service 2 (status_url (Some ''job1'')) = Inr (Some (JArray [JString ''P12345'']))
      \<and> JArray [JString ''P12345''] \<noteq> JNull \<and> truthy (JArray [JString ''P12345''])
      \<and> (\<forall>m<2. falsy_results (status example_service m (status_url (Some ''job1''))))"
    by (simp add: example_service_def falsy_results_def)
  then show "getProteinIds example_service (Array [''ENSG1'', ''ENSG2'']) ''Ensembl''
        ''UniProtKB-Swiss-Prot''
     = Some (polling_trace (Array [''ENSG1'', ''ENSG2'']) ''Ensembl'' ''UniProtKB-Swiss-Prot''
               (Some ''job1'') 2,
             Inr (JArray [JString ''P12345'']))"
    using getProteinIds_polls_until_results [OF submitted] by blast
next
  have submitted: "run pending_service
      (run_body (Array [''ENSG1'', ''ENSG2'']) ''Ensembl'' ''UniProtKB-Swiss-Prot'') = Inr (Some ''job1'')"
    by (simp add: pending_service_def)
  have "\<forall>n. status pending_service n (status_url (Some ''job1'')) = Inr None
        \<or> status pending_service n (status_url (Some ''job1'')) = Inr (Some JNull)"
    by (simp add: pending_service_def)
  then show "getProteinIds pending_service (Array [''ENSG1'', ''ENSG2'']) ''Ensembl''
        ''UniProtKB-Swiss-Prot'' = None"
    using getProteinIds_polls_until_results [OF submitted] by blast
qed

subsection \<open>The query-line formatter\<close>

text \<open>The line is the six fields joined by single spaces; a leading \<open>chr\<close> is removed from
  the reference-sequence name; the line of the specification's example.\<close>

lemma replace_leading_chr: "replace ''chr'' [] (''chr'' @ rest) = rest"
  by simp

lemma parseVariant_fields:
  "parseVariant v =
     nullish_dot (if truthy_string (CHROM v) then map_option (replace ''chr'' []) (CHROM v) else CHROM v)
     @ '' '' @ nullish_dot (map_option number_toString (POS v))
     @ '' '' @ nullish_dot (case ID v of None \<Rightarrow> None | Some ids \<Rightarrow> at_index ids 0)
     @ '' '' @ nullish_dot (REF v)
     @ '' '' @ nullish_dot (map_option (join '','') (ALT v))
     @ '' .''"
  by (simp add: parseVariant_def nullish_dot_def split: option.splits)

lemma parseVariant_example:
  "parseVariant \<lparr>CHROM = Some ''chr1'', POS = Some 100, ID = None, REF = Some ''A'',
                   ALT = Some [''T'', ''G'']\<rparr> = ''1 100 . A T,G .''"
  by code_simp

text \<open>
  Claim C9. The formatter removes the first occurrence of \<open>chr\<close> wherever it is in the
  reference-sequence name, not only a leading prefix: the name \<open>scaffold_chr1\<close>, which has no
  leading \<open>chr\<close>, is not kept as it is but becomes \<open>scaffold_1\<close>.
\<close>

theorem parseVariant_removes_inner_chr:
  "parseVariant \<lparr>CHROM = Some ''scaffold_chr1'', POS = Some 100, ID = None, REF = Some ''A'',
                   ALT = Some [''T'', ''G'']\<rparr> = ''scaffold_1 100 . A T,G .''"
  by code_simp

subsection \<open>The record assembler\<close>

lemma assemble_record_fresh:
  "assemble_record p c = Inr r \<Longrightarrow> fresh r"
  by (auto simp add: assemble_record_def fresh_def Let_def split: option.splits)

lemma assemble_loop_fresh:
  "assemble_loop data acc = Inr rs \<Longrightarrow> \<forall>r \<in> set acc. fresh r \<Longrightarrow> \<forall>r \<in> set rs. fresh r"
proof (induction data acc rule: assemble_loop.induct)
  case (1 results)
  then show ?case by simp
next
  case (2 data results)
  then show ?case by simp
next
  case (3 result data results)
  show ?case
  proof (cases "select_consequence result")
    case None
    with 3 show ?thesis by simp
  next
    case (Some c)
    show ?thesis
    proof (cases "assemble_record result c")
      case (Inl e)
      with Some 3 show ?thesis by simp
    next
      case (Inr r)
      with Some "3.prems" have "assemble_loop data (results @ [r]) = Inr rs" by simp
      moreover have "\<forall>x \<in> set (results @ [r]). fresh x"
        using "3.prems"(2) assemble_record_fresh [OF Inr] by simp
      ultimately show ?thesis
        using "3.IH"(2) [OF Some Inr] by blast
    qed
  qed
qed



lemma structures_loop_attached:
  "structures_loop bs rs = Inr rs' \<Longrightarrow> list_all2 (\<lambda>r r'. attach_structure bs r = Inr r') rs rs'"
proof (induction rs arbitrary: rs')
  case Nil
  then show ?case by simp
next
  case (Cons r rs)
  from Cons.prems obtain r1 rest where
    "attach_structure bs r = Inr r1" "structures_loop bs rs = Inr rest" "rs' = r1 # rest"
    by (auto split: sum.splits)
  with Cons.IH [of rest] show ?case by simp
qed

lemma structures_loop_run:
  "list_all2 (\<lambda>r r'. attach_structure bs r = Inr r') rs rs' \<Longrightarrow> structures_loop bs rs = Inr rs'"
  by (induction rule: list_all2_induct) simp_all

lemma structures_loop_all2:
  "structures_loop bs rs = Inr rs' \<longleftrightarrow> list_all2 (\<lambda>r r'. attach_structure bs r = Inr r') rs rs'"
  using structures_loop_attached structures_loop_run by blast

lemma attach_structure_fields:
  assumes "attach_structure bs r = Inr r'"
  shows "uniprotId r' = uniprotId r" and "siftPrediction r' = siftPrediction r"
    and "polyphenPrediction r' = polyphenPrediction r"
    and "icn3dPdb r' = icn3dPdb r" and "icn3dAlphafold r' = icn3dAlphafold r"
    and "variant r' = variant r" and "aminoAcids r' = aminoAcids r"
    and "aminoAcidMutation r' = aminoAcidMutation r"
  using assms by (auto simp add: attach_structure_def split: option.splits)

lemma attach_structure_selected:
  assumes "attach_structure bs r = Inr r'" and "fresh r"
  shows "case bs (uniprotId r) of
           None \<Rightarrow> pdbId r' = None \<and> pdbStructures r' = None
         | Some structures \<Rightarrow> structures \<noteq> []
             \<and> pdbId r' = Some (pdb_id (structures ! 0) @ ''_'' @ chain_id (structures ! 0))
             \<and> pdbStructures r' = Some structures"
  using assms
  by (auto simp add: attach_structure_def at_index_def fresh_def split: option.splits if_splits)

lemma add_commands_fields:
  "uniprotId (add_commands date r) = uniprotId r"
  "pdbId (add_commands date r) = pdbId r"
  "pdbStructures (add_commands date r) = pdbStructures r"
  "siftPrediction (add_commands date r) = siftPrediction r"
  "polyphenPrediction (add_commands date r) = polyphenPrediction r"
  "variant (add_commands date r) = variant r"
  "aminoAcids (add_commands date r) = aminoAcids r"
  "aminoAcidMutation (add_commands date r) = aminoAcidMutation r"
  by (simp_all add: add_commands_def Let_def)

lemma url_nonempty:
  "getIcn3dAlphafoldUrl date r \<noteq> []" "getIcn3dPdbUrl date r \<noteq> []"
  by (simp_all add: getIcn3dAlphafoldUrl_def getIcn3dPdbUrl_def Let_def icn3d_url_def)

lemma add_commands_icn3d:
  assumes "icn3dPdb r = None" and "icn3dAlphafold r = None"
  shows "truthy_string (icn3dAlphafold (add_commands date r)) \<longleftrightarrow> high_impact r"
    and "truthy_string (icn3dPdb (add_commands date r)) \<longleftrightarrow> high_impact r \<and> truthy_string (pdbId r)"
    and "\<not> high_impact r \<Longrightarrow> icn3dAlphafold (add_commands date r) = None \<and> icn3dPdb (add_commands date r) = None"
  using assms url_nonempty [of date]
  by (auto simp add: add_commands_def Let_def high_impact_def truthy_string_def)

text \<open>What a returning call is made of.\<close>

lemma processVariantConsequences_Inr:
  assumes "processVariantConsequences gbs date data = (calls, Inr out)"
  obtains rs bs rs' where "assemble_loop data [] = Inr rs" and "gbs (map uniprotId rs) = Inr bs"
    and "calls = [map uniprotId rs]"
    and "list_all2 (\<lambda>r r'. attach_structure bs r = Inr r') rs rs'"
    and "out = map (add_commands date) rs'"
  using assms
  by (auto simp add: processVariantConsequences_def Let_def structures_loop_all2
      split: sum.splits)

lemma list_all2_map_eq:
  assumes "list_all2 (\<lambda>r r'. attach_structure bs r = Inr r') rs rs'"
  shows "map uniprotId rs' = map uniprotId rs"
  using assms by (induction rule: list_all2_induct) (simp_all add: attach_structure_fields)


lemma list_all2_source:
  "list_all2 P xs ys \<Longrightarrow> y \<in> set ys \<Longrightarrow> \<exists>x \<in> set xs. P x y"
  by (induction rule: list_all2_induct) auto

lemma returned_record:
  assumes "processVariantConsequences gbs date data = (calls, Inr out)" and "r \<in> set out"
  obtains rs :: "result list" and bs r0 r1
  where "gbs (map uniprotId rs) = Inr bs" and "calls = [map uniprotId rs]"
    and "fresh r0" and "attach_structure bs r0 = Inr r1" and "r = add_commands date r1"
proof -
  from assms(1) obtain rs bs rs' where
    parts: "assemble_loop data [] = Inr rs" "gbs (map uniprotId rs) = Inr bs"
      "calls = [map uniprotId rs]"
      "list_all2 (\<lambda>r r'. attach_structure bs r = Inr r') rs rs'"
      "out = map (add_commands date) rs'"
    by (rule processVariantConsequences_Inr)
  from assms(2) parts(5) obtain r1 where r1: "r1 \<in> set rs'" "r = add_commands date r1"
    by auto
  from r1(1) parts(4) obtain r0 where r0: "r0 \<in> set rs" "attach_structure bs r0 = Inr r1"
    using list_all2_source by force
  have "fresh r0"
    using assemble_loop_fresh [OF parts(1)] r0(1) by simp
  then show thesis
    by (rule that [OF parts(2) parts(3) _ r0(2) r1(2)])
qed

text \<open>The scenario, run: the first loop keeps B and C, and the mapper is asked once.\<close>

lemma scenario_assembled:
  "assemble_loop [Some variant_A, Some variant_B, Some variant_C] [] = Inr [record_B, record_C]"
  by (simp add: variant_A_def variant_B_def variant_C_def consequence_B_def consequence_C_def
      select_consequence_def eligible_def truthy_string_def assemble_record_def at_index_def
      accession_def record_B_def record_C_def number_toString_def digits.simps digit_char_def
      join_element_def)

lemma scenario_attached:
  "attach_structure example_structures record_B = Inr (attached record_B)"
  "attach_structure example_structures record_C = Inr (attached record_C)"
  by (simp_all add: attach_structure_def example_structures_def record_B_def record_C_def
      attached_def at_index_def)

lemma scenario_run:
  "processVariantConsequences example_getBestStructures example_date
       [Some variant_A, Some variant_B, Some variant_C]
     = ([[''P12345'', ''P12345'']],
        Inr [add_commands example_date (attached record_B),
             add_commands example_date (attached record_C)])"
proof -
  have "map uniprotId [record_B, record_C] = [''P12345'', ''P12345'']"
    by (simp add: record_B_def record_C_def)
  then show ?thesis
    unfolding processVariantConsequences_def scenario_assembled
    by (simp add: scenario_attached example_getBestStructures_def)
qed

lemma scenario_unattached:
  "attach_structure no_structures record_B = Inr record_B"
  "attach_structure no_structures record_C = Inr record_C"
  by (simp_all add: attach_structure_def no_structures_def)

lemma scenario_run_unmapped:
  "processVariantConsequences unmapped_getBestStructures example_date
       [Some variant_A, Some variant_B, Some variant_C]
     = ([[''P12345'', ''P12345'']],
        Inr [add_commands example_date record_B, add_commands example_date record_C])"
proof -
  have "map uniprotId [record_B, record_C] = [''P12345'', ''P12345'']"
    by (simp add: record_B_def record_C_def)
  then show ?thesis
    unfolding processVariantConsequences_def scenario_assembled
    by (simp add: scenario_unattached unmapped_getBestStructures_def)
qed

lemma record_B_high_impact: "high_impact record_B" "\<not> high_impact record_C"
  by (simp_all add: high_impact_def record_B_def record_C_def)

text \<open>
  Claim C2, as the code has it. For every record the assembler returns, \<open>icn3dAlphafold\<close> is
  non-empty exactly when the record is high-impact (\<open>siftPrediction\<close> is \<open>deleterious\<close> or
  \<open>polyphenPrediction\<close> is \<open>probably_damaging\<close>); \<open>icn3dPdb\<close> is non-empty exactly when the
  record is high-impact and a structure was attached to it (\<open>pdbId\<close> is set); a record that
  is not high-impact has both fields empty.
\<close>

theorem commands_when_high_impact:
  assumes "processVariantConsequences getBestStructures date data = (calls, Inr out)"
    and "r \<in> set out"
  shows "(truthy_string (icn3dAlphafold r) \<longleftrightarrow> high_impact r)
       \<and> (truthy_string (icn3dPdb r) \<longleftrightarrow> high_impact r \<and> pdbId r \<noteq> None)
       \<and> (\<not> high_impact r \<longrightarrow> icn3dAlphafold r = None \<and> icn3dPdb r = None)"
proof -
  from assms obtain rs bs r0 r1 where
    r: "fresh r0" "attach_structure bs r0 = Inr r1" "r = add_commands date r1"
    by (rule returned_record)
  have none: "icn3dPdb r1 = None" "icn3dAlphafold r1 = None"
    using r(1,2) by (simp_all add: attach_structure_fields fresh_def)
  have pdb: "truthy_string (pdbId r1) \<longleftrightarrow> pdbId r1 \<noteq> None"
    using attach_structure_selected [OF r(2,1)]
    by (auto simp add: truthy_string_def split: option.splits)
  have hi: "high_impact r = high_impact r1"
    by (simp add: high_impact_def r(3) add_commands_fields)
  show ?thesis
    using add_commands_icn3d [OF none, of date] pdb hi
    by (simp add: r(3) add_commands_fields)
qed

theorem commands_when_high_impact_witness:
  "truthy_string (icn3dAlphafold (add_commands example_date (attached record_B)))
   \<and> truthy_string (icn3dPdb (add_commands example_date (attached record_B)))
   \<and> icn3dAlphafold (add_commands example_date (attached record_C)) = None
   \<and> icn3dPdb (add_commands example_date (attached record_C)) = None"
proof -
  have B: "high_impact (add_commands example_date (attached record_B))"
    "pdbId (add_commands example_date (attached record_B)) \<noteq> None"
    by (simp_all add: high_impact_def add_commands_fields attached_def record_B_def)
  have C: "\<not> high_impact (add_commands example_date (attached record_C))"
    by (simp add: high_impact_def add_commands_fields attached_def record_B_def record_C_def)
  show ?thesis
    using commands_when_high_impact [OF scenario_run, of "add_commands example_date (attached record_B)"]
      commands_when_high_impact [OF scenario_run, of "add_commands example_date (attached record_C)"]
      B C
    by simp
qed

text \<open>
  Claim C2 as stated fails: when the mapper knows no structure for \<open>P12345\<close>, the record for
  B is high-impact and its \<open>icn3dPdb\<close> field is empty.
\<close>

theorem high_impact_without_structure:
  "snd (processVariantConsequences unmapped_getBestStructures example_date
          [Some variant_A, Some variant_B, Some variant_C])
     = Inr [add_commands example_date record_B, add_commands example_date record_C]
   \<and> high_impact (add_commands example_date record_B)
   \<and> icn3dPdb (add_commands example_date record_B) = None"
  by (simp add: scenario_run_unmapped high_impact_def add_commands_def record_B_def
      truthy_string_def Let_def)

text \<open>
  Claim C6, as the code has it. The assembler calls the structure mapper at most once, and
  exactly once in every invocation that returns; the argument of the call is the list of the
  accessions of all returned records in record order, with an accession repeated as often as
  records carry it (the list is not deduplicated).
\<close>

theorem getBestStructures_called_once:
  "length (fst (processVariantConsequences getBestStructures date data)) \<le> 1
   \<and> (\<forall>out. snd (processVariantConsequences getBestStructures date data) = Inr out
        \<longrightarrow> fst (processVariantConsequences getBestStructures date data) = [map uniprotId out])"
proof
  show "length (fst (processVariantConsequences getBestStructures date data)) \<le> 1"
    by (simp add: processVariantConsequences_def Let_def split: sum.splits)
next
  show "\<forall>out. snd (processVariantConsequences getBestStructures date data) = Inr out
        \<longrightarrow> fst (processVariantConsequences getBestStructures date data) = [map uniprotId out]"
  proof (intro allI impI)
    fix out
    assume "snd (processVariantConsequences getBestStructures date data) = Inr out"
    then have "processVariantConsequences getBestStructures date data
        = (fst (processVariantConsequences getBestStructures date data), Inr out)"
      by (metis prod.collapse)
    then obtain rs bs rs' where
      parts: "fst (processVariantConsequences getBestStructures date data) = [map uniprotId rs]"
        "list_all2 (\<lambda>r r'. attach_structure bs r = Inr r') rs rs'"
        "out = map (add_commands date) rs'"
      by (rule processVariantConsequences_Inr)
    have "map uniprotId out = map uniprotId rs'"
      by (simp add: parts(3) add_commands_fields)
    with list_all2_map_eq [OF parts(2)] parts(1)
    show "fst (processVariantConsequences getBestStructures date data) = [map uniprotId out]"
      by simp
  qed
qed

theorem getBestStructures_called_once_witness:
  "length (fst (processVariantConsequences example_getBestStructures example_date
                  [Some variant_A, Some variant_B, Some variant_C])) \<le> 1
   \<and> fst (processVariantConsequences example_getBestStructures example_date
            [Some variant_A, Some variant_B, Some variant_C])
       = [map uniprotId [add_commands example_date (attached record_B),
                         add_commands example_date (attached record_C)]]
   \<and> map uniprotId [add_commands example_date (attached record_B),
                     add_commands example_date (attached record_C)]
       = [''P12345'', ''P12345'']"
proof -
  have returned: "snd (processVariantConsequences example_getBestStructures example_date
            [Some variant_A, Some variant_B, Some variant_C])
       = Inr [add_commands example_date (attached record_B),
              add_commands example_date (attached record_C)]"
    by (simp add: scenario_run)
  have ids: "map uniprotId [add_commands example_date (attached record_B),
                           add_commands example_date (attached record_C)]
       = [''P12345'', ''P12345'']"
    by (simp add: add_commands_fields attached_def record_B_def record_C_def)
  from getBestStructures_called_once [of example_getBestStructures example_date
      "[Some variant_A, Some variant_B, Some variant_C]"] returned ids
  show ?thesis
    by blast
qed

text \<open>
  Claim C6 as stated fails: B and C carry the same accession, and the list passed to the
  mapper holds it twice.
\<close>

theorem mapper_argument_with_duplicates:
  "fst (processVariantConsequences example_getBestStructures example_date
          [Some variant_A, Some variant_B, Some variant_C]) = [[''P12345'', ''P12345'']]
   \<and> \<not> distinct [''P12345'', ''P12345'']"
  by (simp add: scenario_run)

lemma attach_structure_defined:
  assumes "bs (uniprotId r) \<noteq> Some []"
  shows "\<exists>r'. attach_structure bs r = Inr r'"
proof (cases "bs (uniprotId r)")
  case None
  then show ?thesis by (simp add: attach_structure_def)
next
  case (Some structures)
  with assms have "structures \<noteq> []" by simp
  with Some show ?thesis
    by (simp add: attach_structure_def at_index_def)
qed

lemma structures_loop_defined:
  assumes "\<forall>r \<in> set rs. bs (uniprotId r) \<noteq> Some []"
  shows "\<exists>rs'. structures_loop bs rs = Inr rs'"
  using assms
proof (induction rs)
  case Nil
  then show ?case by simp
next
  case (Cons r rs)
  from attach_structure_defined [of bs r] Cons.prems obtain r' where
    "attach_structure bs r = Inr r'"
    by auto
  moreover from Cons obtain rs' where "structures_loop bs rs = Inr rs'"
    by auto
  ultimately show ?case by simp
qed

text \<open>
  Claim C7. Let the first loop assemble the records \<open>rs\<close>, and let the mapper answer their
  accessions with a mapping that gives none of them an empty candidate list. Then the call
  returns one record for every assembled record, in the same order, and for every assembled
  record whose accession is in the mapping, the structure identifier of its returned record
  is \<open>pdb_id\<close> and \<open>chain_id\<close> of the candidate at index 0 joined by an underscore, and the
  returned record carries the whole candidate list; a record whose accession is not in the
  mapping gets no structure.
\<close>

theorem structure_is_candidate_0:
  assumes "assemble_loop data [] = Inr rs"
    and "getBestStructures (map uniprotId rs) = Inr bestStructures"
    and "\<forall>r \<in> set rs. bestStructures (uniprotId r) \<noteq> Some []"
  shows "\<exists>out. processVariantConsequences getBestStructures date data
               = ([map uniprotId rs], Inr out)
           \<and> length out = length rs
           \<and> (\<forall>i < length rs.
                 uniprotId (out ! i) = uniprotId (rs ! i)
                 \<and> variant (out ! i) = variant (rs ! i)
                 \<and> (case bestStructures (uniprotId (rs ! i)) of
                       None \<Rightarrow> pdbId (out ! i) = None \<and> pdbStructures (out ! i) = None
                     | Some structures \<Rightarrow>
                         pdbId (out ! i)
                           = Some (pdb_id (structures ! 0) @ ''_'' @ chain_id (structures ! 0))
                         \<and> pdbStructures (out ! i) = Some structures))"
proof -
  from structures_loop_defined [OF assms(3)] obtain rs' where
    loop: "structures_loop bestStructures rs = Inr rs'"
    by blast
  then have all2: "list_all2 (\<lambda>r r'. attach_structure bestStructures r = Inr r') rs rs'"
    by (rule structures_loop_attached)
  let ?out = "map (add_commands date) rs'"
  have run: "processVariantConsequences getBestStructures date data
      = ([map uniprotId rs], Inr ?out)"
    using assms(1,2) loop by (simp add: processVariantConsequences_def)
  have len: "length ?out = length rs"
    using all2 by (simp add: list_all2_lengthD)
  have each: "uniprotId (?out ! i) = uniprotId (rs ! i)
        \<and> variant (?out ! i) = variant (rs ! i)
        \<and> (case bestStructures (uniprotId (rs ! i)) of
              None \<Rightarrow> pdbId (?out ! i) = None \<and> pdbStructures (?out ! i) = None
            | Some structures \<Rightarrow>
                pdbId (?out ! i)
                  = Some (pdb_id (structures ! 0) @ ''_'' @ chain_id (structures ! 0))
                \<and> pdbStructures (?out ! i) = Some structures)"
    if "i < length rs" for i
  proof -
    from that all2 have att: "attach_structure bestStructures (rs ! i) = Inr (rs' ! i)"
      and i': "i < length rs'"
      by (simp_all add: list_all2_conv_all_nth)
    have "fresh (rs ! i)"
      using assemble_loop_fresh [OF assms(1)] that by simp
    from attach_structure_selected [OF att this] attach_structure_fields [OF att] i'
    show ?thesis
      by (auto simp add: add_commands_fields split: option.splits)
  qed
  from run len each show ?thesis
    by blast
qed

theorem structure_is_candidate_0_witness:
  "\<exists>out. processVariantConsequences example_getBestStructures example_date
            [Some variant_A, Some variant_B, Some variant_C]
          = ([[''P12345'', ''P12345'']], Inr out)
     \<and> length out = 2
     \<and> pdbId (out ! 0) = Some ''1abc_A''
     \<and> pdbStructures (out ! 0)
         = Some [\<lparr>pdb_id = ''1abc'', chain_id = ''A'', coverage = 1, resolution = Some 2\<rparr>,
                 \<lparr>pdb_id = ''2xyz'', chain_id = ''B'', coverage = 1, resolution = Some 2\<rparr>]
     \<and> pdbId (out ! 1) = Some ''1abc_A''"
proof -
  have ids: "map uniprotId [record_B, record_C] = [''P12345'', ''P12345'']"
    by (simp add: record_B_def record_C_def)
  have mapper: "example_getBestStructures (map uniprotId [record_B, record_C])
      = Inr example_structures"
    by (simp add: example_getBestStructures_def)
  have nonempty: "\<forall>r \<in> set [record_B, record_C]. example_structures (uniprotId r) \<noteq> Some []"
    by (simp add: example_structures_def)
  have known: "example_structures ''P12345''
      = Some [\<lparr>pdb_id = ''1abc'', chain_id = ''A'', coverage = 1, resolution = Some 2\<rparr>,
              \<lparr>pdb_id = ''2xyz'', chain_id = ''B'', coverage = 1, resolution = Some 2\<rparr>]"
    by (simp add: example_structures_def)
  have "\<exists>out. processVariantConsequences example_getBestStructures example_date
            [Some variant_A, Some variant_B, Some variant_C]
          = ([map uniprotId [record_B, record_C]], Inr out)
        \<and> length out = length [record_B, record_C]
        \<and> (\<forall>i < length [record_B, record_C].
              uniprotId (out ! i) = uniprotId ([record_B, record_C] ! i)
              \<and> variant (out ! i) = variant ([record_B, record_C] ! i)
              \<and> (case example_structures (uniprotId ([record_B, record_C] ! i)) of
                    None \<Rightarrow> pdbId (out ! i) = None \<and> pdbStructures (out ! i) = None
                  | Some structures \<Rightarrow>
                      pdbId (out ! i)
                        = Some (pdb_id (structures ! 0) @ ''_'' @ chain_id (structures ! 0))
                      \<and> pdbStructures (out ! i) = Some structures))"
    by (rule structure_is_candidate_0
        [where getBestStructures = example_getBestStructures
           and bestStructures = example_structures,
         OF scenario_assembled mapper nonempty])
  then obtain out where out:
    "processVariantConsequences example_getBestStructures example_date
            [Some variant_A, Some variant_B, Some variant_C]
          = ([map uniprotId [record_B, record_C]], Inr out)
        \<and> length out = length [record_B, record_C]
        \<and> (\<forall>i < length [record_B, record_C].
              uniprotId (out ! i) = uniprotId ([record_B, record_C] ! i)
              \<and> variant (out ! i) = variant ([record_B, record_C] ! i)
              \<and> (case example_structures (uniprotId ([record_B, record_C] ! i)) of
                    None \<Rightarrow> pdbId (out ! i) = None \<and> pdbStructures (out ! i) = None
                  | Some structures \<Rightarrow>
                      pdbId (out ! i)
                        = Some (pdb_id (structures ! 0) @ ''_'' @ chain_id (structures ! 0))
                      \<and> pdbStructures (out ! i) = Some structures))"
    ..
  have accession: "uniprotId record_B = ''P12345''" "uniprotId record_C = ''P12345''"
    by (simp_all add: record_B_def record_C_def)
  note per_record = out [THEN conjunct2, THEN conjunct2, rule_format]
  have first: "case example_structures (uniprotId ([record_B, record_C] ! 0)) of
                    None \<Rightarrow> pdbId (out ! 0) = None \<and> pdbStructures (out ! 0) = None
                  | Some structures \<Rightarrow>
                      pdbId (out ! 0)
                        = Some (pdb_id (structures ! 0) @ ''_'' @ chain_id (structures ! 0))
                      \<and> pdbStructures (out ! 0) = Some structures"
    using per_record [of 0] by simp
  have second: "case example_structures (uniprotId ([record_B, record_C] ! 1)) of
                    None \<Rightarrow> pdbId (out ! 1) = None \<and> pdbStructures (out ! 1) = None
                  | Some structures \<Rightarrow>
                      pdbId (out ! 1)
                        = Some (pdb_id (structures ! 0) @ ''_'' @ chain_id (structures ! 0))
                      \<and> pdbStructures (out ! 1) = Some structures"
    using per_record [of 1] by simp
  from out have run: "processVariantConsequences example_getBestStructures example_date
            [Some variant_A, Some variant_B, Some variant_C]
          = ([[''P12345'', ''P12345'']], Inr out)" and len: "length out = 2"
    by (simp_all add: accession)
  from first second have "pdbId (out ! 0) = Some ''1abc_A''"
    "pdbStructures (out ! 0)
         = Some [\<lparr>pdb_id = ''1abc'', chain_id = ''A'', coverage = 1, resolution = Some 2\<rparr>,
                 \<lparr>pdb_id = ''2xyz'', chain_id = ''B'', coverage = 1, resolution = Some 2\<rparr>]"
    "pdbId (out ! 1) = Some ''1abc_A''"
    by (simp_all add: accession known)
  with run len show ?thesis
    by blast
qed














text \<open>
  Claim C1, as the code has it. For the three-variant batch of the scenario (A without
  transcript consequences; B with amino acids \<open>A/V\<close>, protein start 42, SIFT prediction
  \<open>deleterious\<close> and accession \<open>P12345.2\<close>; C as B but \<open>tolerated\<close> and \<open>benign\<close>) the assembler
  returns two records, for B and for C, and none for A. The record for B has
  \<open>aminoAcidMutation = A42V\<close>, a non-empty \<open>icn3dAlphafold\<close>, and a non-empty \<open>icn3dPdb\<close>
  exactly when \<open>P12345\<close> is in the structure mapping; the record for C has
  \<open>aminoAcidMutation = A42V\<close> and both command fields empty.
\<close>

theorem scenario_returns_B_and_C:
  assumes "getBestStructures [''P12345'', ''P12345''] = Inr bestStructures"
    and "bestStructures ''P12345'' \<noteq> Some []"
  shows "\<exists>rB rC.
     processVariantConsequences getBestStructures date
         [Some (a\<lparr>transcript_consequences := None\<rparr>),
          Some (b\<lparr>transcript_consequences := Some
             [c\<lparr>swissprot := Some [''P12345.2''], amino_acids := Some ''A/V'',
                protein_start := Some 42, sift_prediction := Some ''deleterious''\<rparr>]\<rparr>),
          Some (b'\<lparr>transcript_consequences := Some
             [c\<lparr>swissprot := Some [''P12345.2''], amino_acids := Some ''A/V'',
                protein_start := Some 42, sift_prediction := Some ''tolerated'',
                polyphen_prediction := Some ''benign''\<rparr>]\<rparr>)]
       = ([[''P12345'', ''P12345'']], Inr [rB, rC])
     \<and> variant rB = input b \<and> aminoAcidMutation rB = ''A42V''
     \<and> truthy_string (icn3dAlphafold rB)
     \<and> (truthy_string (icn3dPdb rB) \<longleftrightarrow> bestStructures ''P12345'' \<noteq> None)
     \<and> variant rC = input b' \<and> aminoAcidMutation rC = ''A42V''
     \<and> icn3dAlphafold rC = None \<and> icn3dPdb rC = None"
proof -
  let ?cB = "c\<lparr>swissprot := Some [''P12345.2''], amino_acids := Some ''A/V'',
                protein_start := Some 42, sift_prediction := Some ''deleterious''\<rparr>"
  let ?cC = "c\<lparr>swissprot := Some [''P12345.2''], amino_acids := Some ''A/V'',
                protein_start := Some 42, sift_prediction := Some ''tolerated'',
                polyphen_prediction := Some ''benign''\<rparr>"
  let ?data = "[Some (a\<lparr>transcript_consequences := None\<rparr>),
          Some (b\<lparr>transcript_consequences := Some [?cB]\<rparr>),
          Some (b'\<lparr>transcript_consequences := Some [?cC]\<rparr>)]"
  obtain r0B where r0B: "assemble_record (b\<lparr>transcript_consequences := Some [?cB]\<rparr>) ?cB = Inr r0B"
    "variant r0B = input b" "aminoAcidMutation r0B = ''A42V''" "uniprotId r0B = ''P12345''"
    "siftPrediction r0B = Some ''deleterious''"
    by (simp add: assemble_record_def at_index_def accession_def join_element_def
        number_toString_def digits.simps digit_char_def)
  obtain r0C where r0C: "assemble_record (b'\<lparr>transcript_consequences := Some [?cC]\<rparr>) ?cC = Inr r0C"
    "variant r0C = input b'" "aminoAcidMutation r0C = ''A42V''" "uniprotId r0C = ''P12345''"
    "siftPrediction r0C = Some ''tolerated''" "polyphenPrediction r0C = Some ''benign''"
    by (simp add: assemble_record_def at_index_def accession_def join_element_def
        number_toString_def digits.simps digit_char_def)
  have assembled: "assemble_loop ?data [] = Inr [r0B, r0C]"
    using r0B(1) r0C(1)
    by (simp add: select_consequence_def eligible_def truthy_string_def)
  have "\<exists>r1. attach_structure bestStructures r0B = Inr r1"
    using assms(2) r0B(4)
    by (cases "bestStructures ''P12345''")
       (auto simp add: attach_structure_def at_index_def)
  then obtain r1B where r1B: "attach_structure bestStructures r0B = Inr r1B"
    by blast
  have "\<exists>r1. attach_structure bestStructures r0C = Inr r1"
    using assms(2) r0C(4)
    by (cases "bestStructures ''P12345''")
       (auto simp add: attach_structure_def at_index_def)
  then obtain r1C where r1C: "attach_structure bestStructures r0C = Inr r1C"
    by blast
  have run: "processVariantConsequences getBestStructures date ?data
      = ([[''P12345'', ''P12345'']], Inr [add_commands date r1B, add_commands date r1C])"
    unfolding processVariantConsequences_def assembled
    using assms(1) r0B(4) r0C(4) r1B r1C by simp
  have freshB: "fresh r0B" and freshC: "fresh r0C"
    using assemble_record_fresh r0B(1) r0C(1) by blast+
  have noneB: "icn3dPdb r1B = None" "icn3dAlphafold r1B = None"
    using freshB r1B by (simp_all add: attach_structure_fields fresh_def)
  have noneC: "icn3dPdb r1C = None" "icn3dAlphafold r1C = None"
    using freshC r1C by (simp_all add: attach_structure_fields fresh_def)
  have hiB: "high_impact r1B" and hiC: "\<not> high_impact r1C"
    using r0B(5) r0C(5,6) r1B r1C
    by (simp_all add: high_impact_def attach_structure_fields)
  have pdbB: "truthy_string (pdbId r1B) \<longleftrightarrow> bestStructures ''P12345'' \<noteq> None"
    using attach_structure_selected [OF r1B freshB] r0B(4)
    by (auto simp add: truthy_string_def split: option.splits)
  have "variant (add_commands date r1B) = input b"
    "aminoAcidMutation (add_commands date r1B) = ''A42V''"
    "variant (add_commands date r1C) = input b'"
    "aminoAcidMutation (add_commands date r1C) = ''A42V''"
    using r0B(2,3) r0C(2,3) r1B r1C
    by (simp_all add: add_commands_fields attach_structure_fields)
  with run add_commands_icn3d [OF noneB, of date] add_commands_icn3d [OF noneC, of date]
    hiB hiC pdbB
  show ?thesis
    by simp
qed

theorem scenario_returns_B_and_C_witness:
  "\<exists>rB rC.
     processVariantConsequences example_getBestStructures example_date
         [Some variant_A, Some variant_B, Some variant_C]
       = ([[''P12345'', ''P12345'']], Inr [rB, rC])
     \<and> variant rB = Some ''1 200 . C T .'' \<and> aminoAcidMutation rB = ''A42V''
     \<and> truthy_string (icn3dAlphafold rB) \<and> truthy_string (icn3dPdb rB)
     \<and> variant rC = Some ''1 300 . G A .'' \<and> aminoAcidMutation rC = ''A42V''
     \<and> icn3dAlphafold rC = None \<and> icn3dPdb rC = None"
proof -
  have mapper: "example_getBestStructures [''P12345'', ''P12345''] = Inr example_structures"
    "example_structures ''P12345'' \<noteq> Some []" "example_structures ''P12345'' \<noteq> None"
    by (simp_all add: example_getBestStructures_def example_structures_def)
  have data: "variant_A\<lparr>transcript_consequences := None\<rparr> = variant_A"
    "variant_B\<lparr>transcript_consequences := Some
        [consequence_B\<lparr>swissprot := Some [''P12345.2''], amino_acids := Some ''A/V'',
           protein_start := Some 42, sift_prediction := Some ''deleterious''\<rparr>]\<rparr> = variant_B"
    "variant_C\<lparr>transcript_consequences := Some
        [consequence_B\<lparr>swissprot := Some [''P12345.2''], amino_acids := Some ''A/V'',
           protein_start := Some 42, sift_prediction := Some ''tolerated'',
           polyphen_prediction := Some ''benign''\<rparr>]\<rparr> = variant_C"
    "input variant_B = Some ''1 200 . C T .''" "input variant_C = Some ''1 300 . G A .''"
    by (simp_all add: variant_A_def variant_B_def variant_C_def consequence_B_def
        consequence_C_def)
  show ?thesis
    using scenario_returns_B_and_C
      [where getBestStructures = example_getBestStructures
         and bestStructures = example_structures and date = example_date
         and a = variant_A and b = variant_B and b' = variant_C and c = consequence_B]
      mapper
    by (simp add: data)
qed

text \<open>
  Claim C1 as stated fails: the output has a second record, the one for C, which carries
  predictions and an accession and so is eligible although it is not high-impact.
\<close>

theorem scenario_keeps_variant_C:
  "snd (processVariantConsequences example_getBestStructures example_date
          [Some variant_A, Some variant_B, Some variant_C])
     = Inr [add_commands example_date (attached record_B),
            add_commands example_date (attached record_C)]
   \<and> variant (add_commands example_date (attached record_C)) = input variant_C
   \<and> siftPrediction (add_commands example_date (attached record_C)) = Some ''tolerated''
   \<and> polyphenPrediction (add_commands example_date (attached record_C)) = Some ''benign''"
  unfolding scenario_run
  by (simp add: add_commands_fields attached_def record_C_def variant_C_def)

text \<open>The viewer command computed for B on 7 March 2023, with the structure \<open>1abc_A\<close>
  attached.\<close>

lemma scenario_commands:
  "icn3dAlphafold (add_commands example_date (attached record_B))
     = Some (''https://www.ncbi.nlm.nih.gov/Structure/icn3d/full.html?afid=P12345&date=202337''
        @ ''&v=3.12.7&command=view%20annotations%3B%20set%20annotation%20cdd%3B%20set%20view''
        @ ''%20detailed%20view%3B%20set%20thickness%20%7C%20stickrad%200.2%3B%20add%20track''
        @ ''%20%7C%20chainid%20P12345_A%20%7C%20title%20SIFT_predict%20%7C%20text%2042%20V''
        @ ''%3B%20add%20track%20%7C%20chainid%20P12345_A%20%7C%20title%20Polyphen_predict''
        @ ''%20%7C%20text%2042%20V%3B%20scap%20interaction%20P12345_A_42_V'')"
  "icn3dPdb (add_commands example_date (attached record_B))
     = Some (''https://www.ncbi.nlm.nih.gov/Structure/icn3d/full.html?pdbid=1abc_A&date=202337''
        @ ''&v=3.12.7&command=view%20annotations%3B%20set%20annotation%20cdd%3B%20set%20view''
        @ ''%20detailed%20view%3B%20set%20thickness%20%7C%20stickrad%200.2%3B%20add%20track''
        @ ''%20%7C%20chainid%201abc_A%20%7C%20title%20SIFT_predict%20%7C%20text%2042%20V''
        @ ''%3B%20add%20track%20%7C%20chainid%201abc_A%20%7C%20title%20Polyphen_predict''
        @ ''%20%7C%20text%2042%20V%3B%20scap%20interaction%201abc_A_42_V'')"
  by code_simp+

end
